theory Spec2Isabelle
  imports Main
begin

section \<open>JavaScript values as the client reads them\<close>

text \<open>
  The client only handles values that come out of a parsed JSON body, plus
  \<^verbatim>\<open>undefined\<close> for a property that is not there. Numbers are modelled as
  integers (the code only tests them for truthiness, compares them with zero and
  prints them; how the runtime prints an integer beyond the safe range is a
  parameter), strings as lists of characters (exact for ASCII text, where a
  character is one code unit). An object is the list of its own properties in enumeration
  order; a JavaScript object has each key once and \<open>js_get\<close> reads the first
  binding of a key.
\<close>

datatype json =
    JUndefined
  | JNull
  | JBool bool
  | JNum int
  | JStr string
  | JArr "json list"
  | JObj "(string \<times> json) list"

text \<open>Truthiness, as \<^verbatim>\<open>!x\<close>, \<^verbatim>\<open>x || y\<close> and \<^verbatim>\<open>x && y\<close> test it.\<close>

fun truthy :: "json \<Rightarrow> bool" where
  "truthy JUndefined = False"
| "truthy JNull = False"
| "truthy (JBool b) = b"
| "truthy (JNum n) = (n \<noteq> 0)"
| "truthy (JStr s) = (s \<noteq> [])"
| "truthy (JArr xs) = True"
| "truthy (JObj kvs) = True"

definition js_or :: "json \<Rightarrow> json \<Rightarrow> json" where
  "js_or a b = (if truthy a then a else b)"

subsection \<open>Strings\<close>

definition is_digit :: "char \<Rightarrow> bool" where
  "is_digit c = (c \<in> set ''0123456789'')"

fun digits_of :: "nat \<Rightarrow> string" where
  "digits_of n =
     (if n < 10 then [''0123456789'' ! n]
      else digits_of (n div 10) @ [''0123456789'' ! (n mod 10)])"

declare digits_of.simps [simp del]

definition int_to_string :: "int \<Rightarrow> string" where
  "int_to_string n = (if n < 0 then CHR ''-'' # digits_of (nat (- n)) else digits_of (nat n))"

fun join_comma :: "string list \<Rightarrow> string" where
  "join_comma [] = []"
| "join_comma [s] = s"
| "join_comma (s # t # ss) = s @ CHR '','' # join_comma (t # ss)"

text \<open>
  \<^verbatim>\<open>String(x)\<close>, which template literals, computed property keys and
  \<^verbatim>\<open>RegExp.test\<close> apply; \<open>None\<close> is the TypeError of a value that has no
  string form. An array prints its elements separated by commas, \<^verbatim>\<open>null\<close>
  and \<^verbatim>\<open>undefined\<close> elements as nothing, and has no string form when an
  element has none. An object prints through its \<^verbatim>\<open>toString\<close>: the inherited
  one gives \<^verbatim>\<open>[object Object]\<close>; an own property \<^verbatim>\<open>toString\<close>, which in
  a parsed body is never a function, hides it, the inherited \<^verbatim>\<open>valueOf\<close>
  returns the object itself, and the conversion throws. An integer within the
  safe range prints its decimal digits; beyond it the runtime prints the
  shortest digits that read back as the same double, in exponent form from
  \<open>10\<^sup>2\<^sup>1\<close>, and that is the parameter \<open>big\<close>.
\<close>

fun js_to_string :: "(int \<Rightarrow> string) \<Rightarrow> json \<Rightarrow> string option" where
  "js_to_string big JUndefined = Some ''undefined''"
| "js_to_string big JNull = Some ''null''"
| "js_to_string big (JBool b) = Some (if b then ''true'' else ''false'')"
| "js_to_string big (JNum n) =
     Some (if \<bar>n\<bar> \<le> 9007199254740991 then int_to_string n else big n)"
| "js_to_string big (JStr s) = Some s"
| "js_to_string big (JArr xs) =
     map_option join_comma
       (those (map (\<lambda>x. if x = JNull \<or> x = JUndefined then Some [] else js_to_string big x) xs))"
| "js_to_string big (JObj kvs) =
     (if map_of kvs ''toString'' = None then Some ''[object Object]'' else None)"

text \<open>\<^verbatim>\<open>s.includes(p)\<close> and \<^verbatim>\<open>s.replace(p, r)\<close> with a string pattern (first occurrence only).\<close>

definition starts_with :: "string \<Rightarrow> string \<Rightarrow> bool" where
  "starts_with s p = (take (length p) s = p)"

fun str_includes :: "string \<Rightarrow> string \<Rightarrow> bool" where
  "str_includes [] p = (p = [])"
| "str_includes (c # cs) p = (starts_with (c # cs) p \<or> str_includes cs p)"

fun str_replace :: "string \<Rightarrow> string \<Rightarrow> string \<Rightarrow> string" where
  "str_replace [] p r = (if p = [] then r else [])"
| "str_replace (c # cs) p r =
     (if starts_with (c # cs) p then r @ drop (length p) (c # cs)
      else c # str_replace cs p r)"

subsection \<open>Property access\<close>

text \<open>A canonical array index: decimal digits with no leading zero.\<close>

fun digits_value :: "string \<Rightarrow> nat \<Rightarrow> nat" where
  "digits_value [] acc = acc"
| "digits_value (c # cs) acc =
     digits_value cs (10 * acc + length (takeWhile (\<lambda>d. d \<noteq> c) ''0123456789''))"

definition array_index :: "string \<Rightarrow> nat option" where
  "array_index k =
     (if k \<noteq> [] \<and> list_all is_digit k \<and> (k = ''0'' \<or> hd k \<noteq> CHR ''0'')
      then Some (digits_value k 0) else None)"

text \<open>
  \<^verbatim>\<open>x.k\<close> and \<^verbatim>\<open>x[k]\<close> on a receiver that is neither \<^verbatim>\<open>null\<close> nor
  \<^verbatim>\<open>undefined\<close>: own properties, the elements and \<^verbatim>\<open>length\<close> of arrays and
  strings, \<^verbatim>\<open>undefined\<close> otherwise. Inherited members (methods of the built-in
  prototypes) are functions or prototype objects; the client only ever reads
  \<^verbatim>\<open>.data\<close> from what a computed key returns, which such a member does not
  have, so they are read as \<^verbatim>\<open>undefined\<close>.
\<close>

fun js_get :: "json \<Rightarrow> string \<Rightarrow> json" where
  "js_get (JObj kvs) k = (case map_of kvs k of Some v \<Rightarrow> v | None \<Rightarrow> JUndefined)"
| "js_get (JArr xs) k =
     (if k = ''length'' then JNum (int (length xs))
      else case array_index k of
             Some i \<Rightarrow> if i < length xs then xs ! i else JUndefined
           | None \<Rightarrow> JUndefined)"
| "js_get (JStr s) k =
     (if k = ''length'' then JNum (int (length s))
      else case array_index k of
             Some i \<Rightarrow> if i < length s then JStr [s ! i] else JUndefined
           | None \<Rightarrow> JUndefined)"
| "js_get v k = JUndefined"

text \<open>The same access where the receiver may be \<^verbatim>\<open>null\<close> or \<^verbatim>\<open>undefined\<close>:
  \<open>None\<close> is the TypeError the runtime throws.\<close>

definition js_member :: "json \<Rightarrow> string \<Rightarrow> json option" where
  "js_member v k = (if v = JNull \<or> v = JUndefined then None else Some (js_get v k))"

text \<open>\<^verbatim>\<open>obj[key]\<close> with a computed key, which is converted to a string first;
  \<open>None\<close> when that conversion throws.\<close>

definition js_index :: "(int \<Rightarrow> string) \<Rightarrow> json \<Rightarrow> json \<Rightarrow> json option" where
  "js_index big v key = map_option (js_get v) (js_to_string big key)"

text \<open>\<^verbatim>\<open>Object.keys(x)\<close>.\<close>

fun object_keys :: "json \<Rightarrow> string list" where
  "object_keys (JObj kvs) = map fst kvs"
| "object_keys (JArr xs) = map digits_of [0..<length xs]"
| "object_keys (JStr s) = map digits_of [0..<length s]"
| "object_keys v = []"

text \<open>
  \<^verbatim>\<open>x > 0\<close>. Arrays and objects are converted to a string first (their
  \<^verbatim>\<open>valueOf\<close> returns the value itself), which may throw, and a string is
  converted to a number; that last conversion belongs to the runtime and is a
  parameter: \<open>pos s\<close> says whether the number the runtime reads from \<open>s\<close> is
  greater than zero.
\<close>

fun js_gt_zero :: "(string \<Rightarrow> bool) \<Rightarrow> (int \<Rightarrow> string) \<Rightarrow> json \<Rightarrow> bool option" where
  "js_gt_zero pos big JUndefined = Some False"
| "js_gt_zero pos big JNull = Some False"
| "js_gt_zero pos big (JBool b) = Some b"
| "js_gt_zero pos big (JNum n) = Some (0 < n)"
| "js_gt_zero pos big (JStr s) = Some (pos s)"
| "js_gt_zero pos big (JArr xs) = map_option pos (js_to_string big (JArr xs))"
| "js_gt_zero pos big (JObj kvs) = map_option pos (js_to_string big (JObj kvs))"

section \<open>Field normalization\<close>

text \<open>
  A timestamp of a normalized user is either the value the payload carried or a
  \<^verbatim>\<open>new Date()\<close>. The clock is a parameter: \<open>clock k\<close> is what the \<open>k\<close>-th
  \<^verbatim>\<open>new Date()\<close> of a call reads.
\<close>

datatype stamp = Upstream json | Now int

record user_record =
  user_id :: json
  username :: json
  displayName :: json
  gender :: json
  age :: json
  country :: json
  state :: json
  avatarImage :: json
  avatarPortraitImage :: json
  isVip :: json
  isCreator :: json
  isAp :: json
  isStaff :: json
  isAdult :: json
  isAgeVerified :: json
  created :: stamp
  registered :: stamp

record avatar_record =
  lookUrl :: json
  assetUrl :: json
  avatar_gender :: json
  products :: json

record profile_record =
  profile_image :: json
  online :: json
  profile_username :: json
  profile_displayName :: json
  followingCount :: json
  followerCount :: json

definition parseUserData :: "(nat \<Rightarrow> int) \<Rightarrow> json \<Rightarrow> user_record option" where
  "parseUserData clock userData =
     (if \<not> truthy userData \<or> \<not> truthy (js_get userData ''data'') then None
      else
        let data = js_get userData ''data'';
            id0 = js_or (js_get data ''id'') (js_get data ''_id'');
            id1 = (if \<not> truthy id0 \<and> truthy (js_get userData ''data'') then
                     (case find (\<lambda>key. str_includes key ''user-'') (object_keys userData) of
                        Some idMatch \<Rightarrow>
                          if idMatch \<noteq> [] then JStr (str_replace idMatch ''user-'' []) else id0
                      | None \<Rightarrow> id0)
                   else id0);
            created0 = js_or (js_get data ''created'') (js_get data ''created_datetime'');
            registered0 = js_or (js_get data ''registered'') (js_get data ''registered_datetime'')
        in Some \<lparr>
          user_id = js_or id1 (JStr ''unknown''),
          username = js_or (js_get data ''username'') (js_or (js_get data ''avatarname'') (JStr [])),
          displayName =
            js_or (js_get data ''display_name'') (js_or (js_get data ''displayName'') (JStr [])),
          gender = js_or (js_get data ''gender'') (JStr []),
          age = js_or (js_get data ''age'') JNull,
          country = js_or (js_get data ''country'') (JStr []),
          state = js_or (js_get data ''state'') (JStr []),
          avatarImage =
            js_or (js_get data ''avatar_image'') (js_or (js_get data ''avatarImage'') (JStr [])),
          avatarPortraitImage =
            js_or (js_get data ''avatar_portrait_image'')
              (js_or (js_get data ''avatarPortraitImage'') (JStr [])),
          isVip = js_or (js_get data ''is_vip'') (js_or (js_get data ''isVip'') (JBool False)),
          isCreator =
            js_or (js_get data ''is_creator'') (js_or (js_get data ''isCreator'') (JBool False)),
          isAp = js_or (js_get data ''is_ap'') (js_or (js_get data ''isAp'') (JBool False)),
          isStaff = js_or (js_get data ''is_staff'') (js_or (js_get data ''isStaff'') (JBool False)),
          isAdult = js_or (js_get data ''is_adult'') (js_or (js_get data ''isAdult'') (JBool False)),
          isAgeVerified =
            js_or (js_get data ''is_ageverified'')
              (js_or (js_get data ''isAgeVerified'') (JBool False)),
          created = (if truthy created0 then Upstream created0 else Now (clock 0)),
          registered =
            (if truthy registered0 then Upstream registered0
             else Now (clock (if truthy created0 then 0 else 1)))
        \<rparr>)"

definition parseAvatarData :: "json \<Rightarrow> avatar_record option" where
  "parseAvatarData avatarData =
     (if \<not> truthy avatarData \<or> \<not> truthy (js_get avatarData ''data'') then None
      else
        let data = js_get avatarData ''data''
        in Some \<lparr>
          lookUrl = js_or (js_get data ''look_url'') (js_or (js_get data ''lookUrl'') (JStr [])),
          assetUrl = js_or (js_get data ''asset_url'') (js_or (js_get data ''assetUrl'') (JStr [])),
          avatar_gender = js_or (js_get data ''gender'') (JStr []),
          products = js_or (js_get data ''products'') (JArr [])
        \<rparr>)"

definition parseProfileData :: "json \<Rightarrow> profile_record option" where
  "parseProfileData profileData =
     (if \<not> truthy profileData \<or> \<not> truthy (js_get profileData ''data'') then None
      else
        let data = js_get profileData ''data''
        in Some \<lparr>
          profile_image = js_or (js_get data ''image'') (JStr []),
          online = js_or (js_get data ''online'') (JBool False),
          profile_username =
            js_or (js_get data ''avatar_name'') (js_or (js_get data ''avatarName'') (JStr [])),
          profile_displayName = js_or (js_get data ''title'') (JStr []),
          followingCount =
            js_or (js_get data ''approx_following_count'')
              (js_or (js_get data ''followingCount'') (JNum 0)),
          followerCount =
            js_or (js_get data ''approx_follower_count'')
              (js_or (js_get data ''followerCount'') (JNum 0))
        \<rparr>)"

section \<open>The upstream API\<close>

text \<open>
  The HTTP layer is a parameter. A call either resolves with a response, of
  which the client reads only the parsed body (every status code is accepted),
  or rejects with an error; \<open>Rejected d\<close> carries what
  \<^verbatim>\<open>error.response?.data\<close> evaluates to on that error. The clock and the two
  conversions of the runtime are parameters too.
\<close>

datatype request =
    Get string "(string \<times> json) list"
  | Post string json

datatype http_outcome = Response json | Rejected json

record world =
  http :: "request \<Rightarrow> http_outcome"
  clock :: "nat \<Rightarrow> int"
  str_pos :: "string \<Rightarrow> bool"
  num_string :: "int \<Rightarrow> string"

text \<open>The errors the client throws or passes on; the fields are the texts its
  messages interpolate.\<close>

datatype js_error =
    TypeError
  | TransportError json
  | ApiError string string
  | ApiErrorOfResponse string
  | LoginFailed string
  | AuthTokenFailed string
  | NoAuthToken

text \<open>An error whose message interpolates a value: building the message throws
  a TypeError when the value has no string form.\<close>

definition error_with :: "(int \<Rightarrow> string) \<Rightarrow> (string \<Rightarrow> js_error) \<Rightarrow> json \<Rightarrow> js_error" where
  "error_with big mk v = (case js_to_string big v of None \<Rightarrow> TypeError | Some s \<Rightarrow> mk s)"

text \<open>Every function that talks to the API returns its result and the requests it sent, in order.\<close>

definition request :: "world \<Rightarrow> string \<Rightarrow> (string \<times> json) list \<Rightarrow> (js_error + json) \<times> request list" where
  "request w url params =
     ((case http w (Get url params) of
         Response data \<Rightarrow>
           (case js_member data ''status'' of
              None \<Rightarrow> Inl TypeError
            | Some status \<Rightarrow>
                if status = JStr ''failure''
                then
                  (case js_to_string (num_string w) (js_get data ''message'') of
                     None \<Rightarrow> Inl TypeError
                   | Some m \<Rightarrow> Inl (error_with (num_string w) (ApiError m) (js_get data ''error'')))
                else Inr data)
       | Rejected d \<Rightarrow>
           if js_get d ''status'' = JStr ''failure''
           then Inl (error_with (num_string w) ApiErrorOfResponse (js_get d ''message''))
           else Inl (TransportError d)),
      [Get url params])"

section \<open>Query resolution\<close>

text \<open>
  The \<^verbatim>\<open>catch\<close> block of the four lookups logs a message that interpolates
  the argument of the lookup and returns \<^verbatim>\<open>null\<close>; when the argument has no
  string form, building the message throws and the lookup rejects.
\<close>

definition lookup_caught :: "world \<Rightarrow> json \<Rightarrow> js_error + 'a option" where
  "lookup_caught w subject =
     (case js_to_string (num_string w) subject of
        None \<Rightarrow> Inl TypeError
      | Some s \<Rightarrow> Inr None)"

definition getUserById :: "world \<Rightarrow> json \<Rightarrow> (js_error + user_record option) \<times> request list" where
  "getUserById w ident =
     (case js_to_string (num_string w) ident of
        None \<Rightarrow> (lookup_caught w ident, [])
      | Some i \<Rightarrow>
          (case request w (''/user/user-'' @ i) [] of
             (Inl e, sent) \<Rightarrow> (lookup_caught w ident, sent)
           | (Inr response, sent) \<Rightarrow>
               (if truthy (js_get response ''denormalized'') \<and> truthy (js_get response ''id'') then
                  (case js_index (num_string w) (js_get response ''denormalized'')
                          (js_get response ''id'') of
                     None \<Rightarrow> lookup_caught w ident
                   | Some userData \<Rightarrow> Inr (parseUserData (clock w) userData))
                else Inr None,
                sent)))"

definition getUserByUsername :: "world \<Rightarrow> json \<Rightarrow> (js_error + user_record option) \<times> request list" where
  "getUserByUsername w uname =
     (case request w ''/user'' [(''username'', uname)] of
        (Inl e, sent) \<Rightarrow> (lookup_caught w uname, sent)
      | (Inr response, sent) \<Rightarrow>
          (if truthy (js_get response ''denormalized'') \<and> truthy (js_get response ''id'') then
             (case js_index (num_string w) (js_get response ''denormalized'')
                     (js_get response ''id'') of
                None \<Rightarrow> lookup_caught w uname
              | Some userData \<Rightarrow>
                  (case js_member userData ''data'' of
                     None \<Rightarrow> lookup_caught w uname
                   | Some d \<Rightarrow>
                       if truthy d \<and> truthy (js_get d ''items'') then
                         (case js_gt_zero (str_pos w) (num_string w)
                                 (js_get (js_get d ''items'') ''length'') of
                            None \<Rightarrow> lookup_caught w uname
                          | Some True \<Rightarrow>
                              (let userRef = js_get (js_get d ''items'') ''0''
                               in case js_index (num_string w) (js_get response ''denormalized'')
                                         userRef of
                                    None \<Rightarrow> lookup_caught w uname
                                  | Some actualUserData \<Rightarrow>
                                      Inr (parseUserData (clock w) actualUserData))
                          | Some False \<Rightarrow> Inr (parseUserData (clock w) userData))
                       else Inr (parseUserData (clock w) userData)))
           else Inr None,
           sent))"

definition getAvatarData :: "world \<Rightarrow> json \<Rightarrow> (js_error + avatar_record option) \<times> request list" where
  "getAvatarData w userId =
     (case js_to_string (num_string w) userId of
        None \<Rightarrow> (lookup_caught w userId, [])
      | Some i \<Rightarrow>
          (case request w (''/avatar/avatar-'' @ i) [] of
             (Inl e, sent) \<Rightarrow> (lookup_caught w userId, sent)
           | (Inr response, sent) \<Rightarrow>
               (if truthy (js_get response ''denormalized'') \<and> truthy (js_get response ''id'') then
                  (case js_index (num_string w) (js_get response ''denormalized'')
                          (js_get response ''id'') of
                     None \<Rightarrow> lookup_caught w userId
                   | Some avatarData \<Rightarrow> Inr (parseAvatarData avatarData))
                else Inr None,
                sent)))"

definition getProfileData :: "world \<Rightarrow> json \<Rightarrow> (js_error + profile_record option) \<times> request list" where
  "getProfileData w userId =
     (case js_to_string (num_string w) userId of
        None \<Rightarrow> (lookup_caught w userId, [])
      | Some i \<Rightarrow>
          (case request w (''/profile/profile-user-'' @ i) [] of
             (Inl e, sent) \<Rightarrow> (lookup_caught w userId, sent)
           | (Inr response, sent) \<Rightarrow>
               (if truthy (js_get response ''denormalized'') \<and> truthy (js_get response ''id'') then
                  (case js_index (num_string w) (js_get response ''denormalized'')
                          (js_get response ''id'') of
                     None \<Rightarrow> lookup_caught w userId
                   | Some profileData \<Rightarrow> Inr (parseProfileData profileData))
                else Inr None,
                sent)))"

text \<open>The test \<^verbatim>\<open>/^\d+$/\<close> on the string form of the query: a digit, then
  digits up to the end of the input. \<open>None\<close> when the query has no string form
  and the test throws.\<close>

fun digits_to_end :: "string \<Rightarrow> bool" where
  "digits_to_end [] = True"
| "digits_to_end (c # cs) = (is_digit c \<and> digits_to_end cs)"

definition isNumeric :: "(int \<Rightarrow> string) \<Rightarrow> json \<Rightarrow> bool option" where
  "isNumeric big query =
     map_option (\<lambda>s. case s of [] \<Rightarrow> False | c # cs \<Rightarrow> is_digit c \<and> digits_to_end cs)
       (js_to_string big query)"

record combined_result =
  user :: user_record
  avatar :: "avatar_record option"
  profile :: "profile_record option"

text \<open>\<^verbatim>\<open>promise.catch(() => null)\<close>.\<close>

definition catch_null :: "js_error + 'a option \<Rightarrow> 'a option" where
  "catch_null r = (case r of Inl e \<Rightarrow> None | Inr x \<Rightarrow> x)"

text \<open>
  The outer \<^verbatim>\<open>catch\<close> of \<^verbatim>\<open>getUserData\<close> logs and rethrows: an error of the
  test or of the primary lookup is the result. The two further lookups start
  in the order avatar, profile.
\<close>

definition getUserData :: "world \<Rightarrow> json \<Rightarrow> (js_error + combined_result option) \<times> request list" where
  "getUserData w query =
     (case isNumeric (num_string w) query of
        None \<Rightarrow> (Inl TypeError, [])
      | Some numeric \<Rightarrow>
          (case (if numeric then getUserById w query else getUserByUsername w query) of
             (Inl e, sent) \<Rightarrow> (Inl e, sent)
           | (Inr None, sent) \<Rightarrow> (Inr None, sent)
           | (Inr (Some u), sent) \<Rightarrow>
               (case getAvatarData w (user_id u) of
                  (av, sent_a) \<Rightarrow>
                    (case getProfileData w (user_id u) of
                       (pr, sent_p) \<Rightarrow>
                         (Inr (Some \<lparr>user = u, avatar = catch_null av, profile = catch_null pr\<rparr>),
                          sent @ sent_a @ sent_p)))))"

section \<open>The session\<close>

record session =
  authenticated :: bool
  sauce :: json
  login_username :: json
  login_password :: json
  headers :: "string \<rightharpoonup> json"

definition new_session :: session where
  "new_session =
     \<lparr>authenticated = False, sauce = JStr [], login_username = JStr [],
      login_password = JStr [], headers = Map.empty\<rparr>"

text \<open>The \<^verbatim>\<open>catch\<close> block of \<^verbatim>\<open>login\<close>: reset and rethrow.\<close>

definition login_failed :: "js_error \<Rightarrow> session \<Rightarrow> (js_error + bool) \<times> session" where
  "login_failed e s = (Inl e, s\<lparr>authenticated := False, sauce := JStr []\<rparr>)"

text \<open>What follows the extraction of the token.\<close>

definition login_finish :: "session \<Rightarrow> (js_error + bool) \<times> session" where
  "login_finish s =
     (if \<not> truthy (sauce s) then login_failed NoAuthToken s
      else
        (Inr True,
         s\<lparr>headers := (headers s)(''x-imvu-sauce'' \<mapsto> sauce s,
                                   ''x-imvu-application'' \<mapsto> JStr ''imvu-web''),
           authenticated := True\<rparr>))"

text \<open>The first statement logs a message that interpolates the username, before
  the credentials are stored.\<close>

definition login :: "world \<Rightarrow> session \<Rightarrow> json \<Rightarrow> json \<Rightarrow> (js_error + bool) \<times> session" where
  "login w s0 uname pw =
     (case js_to_string (num_string w) uname of
        None \<Rightarrow> login_failed TypeError s0
      | Some shown \<Rightarrow>
     (let s = s0\<lparr>login_username := uname, login_password := pw\<rparr> in
      case http w (Post ''/login'' (JObj [(''username'', uname), (''password'', pw)])) of
        Rejected d \<Rightarrow> login_failed (TransportError d) s
      | Response loginData \<Rightarrow>
          (case js_member loginData ''status'' of
             None \<Rightarrow> login_failed TypeError s
           | Some st \<Rightarrow>
               if st = JStr ''failure''
               then login_failed
                      (error_with (num_string w) LoginFailed (js_get loginData ''message'')) s
               else
                 (case http w (Get ''/login/me'' []) of
                    Rejected d \<Rightarrow> login_failed (TransportError d) s
                  | Response meData \<Rightarrow>
                      (case js_member meData ''status'' of
                         None \<Rightarrow> login_failed TypeError s
                       | Some st' \<Rightarrow>
                           if st' = JStr ''failure''
                           then login_failed
                                  (error_with (num_string w) AuthTokenFailed
                                     (js_get meData ''message'')) s
                           else if truthy (js_get meData ''denormalized'')
                                   \<and> truthy (js_get meData ''id'')
                           then
                             (case js_index (num_string w) (js_get meData ''denormalized'')
                                     (js_get meData ''id'') of
                                None \<Rightarrow> login_failed TypeError s
                              | Some userData \<Rightarrow>
                                  (case js_member userData ''data'' of
                                     None \<Rightarrow> login_failed TypeError s
                                   | Some d \<Rightarrow>
                                       (case js_member d ''sauce'' of
                                          None \<Rightarrow> login_failed TypeError s
                                        | Some tok \<Rightarrow>
                                            login_finish (s\<lparr>sauce := js_or tok (JStr [])\<rparr>))))
                           else login_finish s)))))"

section \<open>The dual-convention fields\<close>

text \<open>
  The canonical fields that the parsers read from a snake\_case key and a
  camelCase key: the two keys, the default, and the field of the record.
\<close>

definition user_dual_fields :: "(string \<times> string \<times> json \<times> (user_record \<Rightarrow> json)) list" where
  "user_dual_fields =
     [(''display_name'', ''displayName'', JStr [], displayName),
      (''avatar_image'', ''avatarImage'', JStr [], avatarImage),
      (''avatar_portrait_image'', ''avatarPortraitImage'', JStr [], avatarPortraitImage),
      (''is_vip'', ''isVip'', JBool False, isVip),
      (''is_creator'', ''isCreator'', JBool False, isCreator),
      (''is_ap'', ''isAp'', JBool False, isAp),
      (''is_staff'', ''isStaff'', JBool False, isStaff),
      (''is_adult'', ''isAdult'', JBool False, isAdult),
      (''is_ageverified'', ''isAgeVerified'', JBool False, isAgeVerified)]"

definition avatar_dual_fields :: "(string \<times> string \<times> json \<times> (avatar_record \<Rightarrow> json)) list" where
  "avatar_dual_fields =
     [(''look_url'', ''lookUrl'', JStr [], lookUrl),
      (''asset_url'', ''assetUrl'', JStr [], assetUrl)]"

definition profile_dual_fields :: "(string \<times> string \<times> json \<times> (profile_record \<Rightarrow> json)) list" where
  "profile_dual_fields =
     [(''avatar_name'', ''avatarName'', JStr [], profile_username),
      (''approx_following_count'', ''followingCount'', JNum 0, followingCount),
      (''approx_follower_count'', ''followerCount'', JNum 0, followerCount)]"

text \<open>The pairs of keys of such a table.\<close>

definition dual_keys :: "(string \<times> string \<times> json \<times> 'r) list \<Rightarrow> (string \<times> string) set" where
  "dual_keys table = set (map (\<lambda>(s, c, d, field). (s, c)) table)"

section \<open>Scenarios\<close>

text \<open>
  Concrete upstream behaviours for the examples below. A scripted world answers
  the listed requests with the given bodies and rejects every other request
  with an error that has no response. None of the scenarios compares a string
  with zero or prints an integer beyond the safe range, so \<open>str_pos\<close> and
  \<open>num_string\<close> are never consulted in them.
\<close>

definition fixed_clock :: "nat \<Rightarrow> int" where
  "fixed_clock k = 1700000000000 + int k"

definition scripted_world :: "(request \<times> json) list \<Rightarrow> world" where
  "scripted_world answers =
     \<lparr>http = (\<lambda>req. case map_of answers req of
                         Some body \<Rightarrow> Response body
                       | None \<Rightarrow> Rejected JUndefined),
      clock = fixed_clock,
      str_pos = (\<lambda>s. False),
      num_string = int_to_string\<rparr>"

text \<open>A search for \<^verbatim>\<open>abc\<close> that matches no account: the root entry is a
  search result with no items.\<close>

definition empty_search_envelope :: json where
  "empty_search_envelope =
     JObj [(''denormalized'',
              JObj [(''search-abc'', JObj [(''data'', JObj [(''items'', JArr [])])])]),
           (''id'', JStr ''search-abc'')]"

definition empty_search_world :: world where
  "empty_search_world =
     scripted_world [(Get ''/user'' [(''username'', JStr ''abc'')], empty_search_envelope)]"

text \<open>A user resource keyed \<^verbatim>\<open>user-123\<close> whose data carries no identifier.\<close>

definition bare_user_envelope :: json where
  "bare_user_envelope =
     JObj [(''denormalized'',
              JObj [(''user-123'', JObj [(''data'', JObj [(''username'', JStr ''abc'')])])]),
           (''id'', JStr ''user-123'')]"

definition bare_user_world :: world where
  "bare_user_world = scripted_world [(Get ''/user/user-123'' [], bare_user_envelope)]"

text \<open>A search for \<^verbatim>\<open>abc\<close> that refers to \<^verbatim>\<open>user-12345\<close>; the profile
  of that user is served, the avatar request is rejected.\<close>

definition search_hit_envelope :: json where
  "search_hit_envelope =
     JObj [(''denormalized'',
              JObj [(''search-abc'', JObj [(''data'', JObj [(''items'', JArr [JStr ''user-12345''])])]),
                    (''user-12345'',
                       JObj [(''data'', JObj [(''id'', JStr ''12345''), (''username'', JStr ''abc'')])])]),
           (''id'', JStr ''search-abc'')]"

definition profile_envelope :: json where
  "profile_envelope =
     JObj [(''denormalized'',
              JObj [(''profile-user-12345'',
                       JObj [(''data'', JObj [(''title'', JStr ''Abc''), (''online'', JBool True)])])]),
           (''id'', JStr ''profile-user-12345'')]"

definition search_hit_world :: world where
  "search_hit_world =
     scripted_world
       [(Get ''/user'' [(''username'', JStr ''abc'')], search_hit_envelope),
        (Get ''/profile/profile-user-12345'' [], profile_envelope)]"

text \<open>A client that logged in before, and an upstream that accepts the
  credentials but whose answer to \<^verbatim>\<open>/login/me\<close> has no envelope.\<close>

definition stale_session :: session where
  "stale_session =
     \<lparr>authenticated = True, sauce = JStr ''old-token'', login_username = JStr ''alice'',
      login_password = JStr ''secret'',
      headers = [''x-imvu-sauce'' \<mapsto> JStr ''old-token'',
                 ''x-imvu-application'' \<mapsto> JStr ''imvu-web'']\<rparr>"

definition bare_me_world :: world where
  "bare_me_world =
     scripted_world
       [(Post ''/login'' (JObj [(''username'', JStr ''alice''), (''password'', JStr ''secret'')]),
           JObj [(''status'', JStr ''success'')]),
        (Get ''/login/me'' [], JObj [(''status'', JStr ''success'')])]"

text \<open>Payloads that mix the two naming conventions.\<close>

definition mixed_user_entry :: json where
  "mixed_user_entry =
     JObj [(''data'',
              JObj [(''id'', JStr ''7''), (''is_vip'', JBool False), (''isVip'', JBool True),
                    (''display_name'', JStr ''Abc''), (''isStaff'', JBool True)])]"

definition mixed_avatar_entry :: json where
  "mixed_avatar_entry =
     JObj [(''data'', JObj [(''look_url'', JStr []), (''lookUrl'', JStr ''l''),
                            (''asset_url'', JStr ''a'')])]"

definition mixed_profile_entry :: json where
  "mixed_profile_entry =
     JObj [(''data'', JObj [(''approx_following_count'', JNum 0), (''followingCount'', JNum 3),
                            (''avatarName'', JStr ''abc'')])]"

text \<open>The user resource \<^verbatim>\<open>user-12345\<close> served directly, with its avatar; the
  profile request is rejected.\<close>

definition user_envelope :: json where
  "user_envelope =
     JObj [(''denormalized'',
              JObj [(''user-12345'',
                       JObj [(''data'', JObj [(''id'', JStr ''12345''), (''username'', JStr ''abc'')])])]),
           (''id'', JStr ''user-12345'')]"

definition avatar_envelope :: json where
  "avatar_envelope =
     JObj [(''denormalized'',
              JObj [(''avatar-12345'',
                       JObj [(''data'', JObj [(''look_url'', JStr ''l''), (''gender'', JStr ''f'')])])]),
           (''id'', JStr ''avatar-12345'')]"

definition id_hit_world :: world where
  "id_hit_world =
     scripted_world
       [(Get ''/user/user-12345'' [], user_envelope),
        (Get ''/avatar/avatar-12345'' [], avatar_envelope)]"

text \<open>The user the two scenarios resolve to.\<close>

definition user_12345 :: user_record where
  "user_12345 =
     \<lparr>user_id = JStr ''12345'', username = JStr ''abc'', displayName = JStr [],
      gender = JStr [], age = JNull, country = JStr [], state = JStr [],
      avatarImage = JStr [], avatarPortraitImage = JStr [],
      isVip = JBool False, isCreator = JBool False, isAp = JBool False,
      isStaff = JBool False, isAdult = JBool False, isAgeVerified = JBool False,
      created = Now (fixed_clock 0), registered = Now (fixed_clock 1)\<rparr>"

text \<open>A user entry whose data has no identifier.\<close>

definition bare_user_entry :: json where
  "bare_user_entry = JObj [(''data'', JObj [(''username'', JStr ''abc'')])]"

text \<open>The same payloads in the one and in the other naming convention.\<close>

definition snake_user_entry :: json where
  "snake_user_entry = JObj [(''data'', JObj [(''id'', JStr ''7''), (''display_name'', JStr ''Abc'')])]"

definition camel_user_entry :: json where
  "camel_user_entry = JObj [(''data'', JObj [(''id'', JStr ''7''), (''displayName'', JStr ''Abc'')])]"

definition snake_avatar_entry :: json where
  "snake_avatar_entry = JObj [(''data'', JObj [(''look_url'', JStr ''l''), (''gender'', JStr ''f'')])]"

definition camel_avatar_entry :: json where
  "camel_avatar_entry = JObj [(''data'', JObj [(''lookUrl'', JStr ''l''), (''gender'', JStr ''f'')])]"

definition snake_profile_entry :: json where
  "snake_profile_entry =
     JObj [(''data'', JObj [(''approx_follower_count'', JNum 0), (''title'', JStr ''T'')])]"

definition camel_profile_entry :: json where
  "camel_profile_entry =
     JObj [(''data'', JObj [(''followerCount'', JNum 0), (''title'', JStr ''T'')])]"

text \<open>An upstream that rejects the credentials.\<close>

definition rejecting_world :: world where
  "rejecting_world =
     scripted_world
       [(Post ''/login'' (JObj [(''username'', JStr ''alice''), (''password'', JStr ''wrong'')]),
           JObj [(''status'', JStr ''failure''), (''message'', JStr ''bad credentials'')])]"

text \<open>A user whose upstream id is an object with a property \<^verbatim>\<open>toString\<close>, which
  has no string form; the avatar and the profile of \<^verbatim>\<open>[object Object]\<close> would
  be served.\<close>

definition odd_id :: json where
  "odd_id = JObj [(''toString'', JNum 1)]"

definition odd_id_envelope :: json where
  "odd_id_envelope =
     JObj [(''denormalized'',
              JObj [(''user-5'', JObj [(''data'', JObj [(''id'', odd_id), (''username'', JStr ''abc'')])])]),
           (''id'', JStr ''user-5'')]"

definition odd_id_world :: world where
  "odd_id_world =
     scripted_world
       [(Get ''/user/user-5'' [], odd_id_envelope),
        (Get ''/avatar/avatar-[object Object]'' [], avatar_envelope),
        (Get ''/profile/profile-user-[object Object]'' [], profile_envelope)]"

definition odd_user :: user_record where
  "odd_user =
     \<lparr>user_id = odd_id, username = JStr ''abc'', displayName = JStr [],
      gender = JStr [], age = JNull, country = JStr [], state = JStr [],
      avatarImage = JStr [], avatarPortraitImage = JStr [],
      isVip = JBool False, isCreator = JBool False, isAp = JBool False,
      isStaff = JBool False, isAdult = JBool False, isAgeVerified = JBool False,
      created = Now (fixed_clock 0), registered = Now (fixed_clock 1)\<rparr>"

text \<open>A search whose first item is such an object, in an envelope that has an
  entry under \<^verbatim>\<open>[object Object]\<close>.\<close>

definition odd_item_envelope :: json where
  "odd_item_envelope =
     JObj [(''denormalized'',
              JObj [(''search-abc'', JObj [(''data'', JObj [(''items'', JArr [odd_id])])]),
                    (''[object Object]'',
                       JObj [(''data'', JObj [(''id'', JStr ''9''), (''username'', JStr ''x'')])])]),
           (''id'', JStr ''search-abc'')]"

definition odd_item_world :: world where
  "odd_item_world =
     scripted_world [(Get ''/user'' [(''username'', JStr ''abc'')], odd_item_envelope)]"

section \<open>Basic facts\<close>

text \<open>The source chains \<^verbatim>\<open>a || b || d\<close> from the left; the value is the same
  either way.\<close>

lemma js_or_assoc: "js_or (js_or a b) d = js_or a (js_or b d)"
  by (simp add: js_or_def)

lemma js_or_chain: "js_or a (js_or b d) = (if truthy a then a else if truthy b then b else d)"
  by (simp add: js_or_def)

lemma js_or_swap: "js_or v (js_or JUndefined d) = js_or JUndefined (js_or v d)"
  by (simp add: js_or_def)

lemma data_receiver_truthy: "truthy (js_get userData ''data'') \<Longrightarrow> truthy userData"
  by (cases userData) (auto simp: array_index_def is_digit_def split: if_splits)

lemma find_none: "(\<forall>x \<in> set xs. \<not> P x) \<Longrightarrow> find P xs = None"
  by (induction xs) auto

lemma parse_total:
  assumes "truthy (js_get userData ''data'')"
  shows "\<exists>r. parseUserData clk userData = Some r"
  using assms data_receiver_truthy [OF assms] by (simp add: parseUserData_def Let_def)

lemma js_get_JArr_first: "js_get (JArr (x # xs)) ''0'' = x"
  by (simp add: array_index_def is_digit_def)

lemma js_get_JArr_length: "js_get (JArr xs) ''length'' = JNum (int (length xs))"
  by simp

lemma items_list_receiver:
  assumes "js_get (js_get root ''data'') ''items'' = JArr ys"
  shows "js_member root ''data'' = Some (js_get root ''data'') \<and> truthy (js_get root ''data'')"
proof -
  from assms have "js_get root ''data'' \<noteq> JUndefined" by auto
  then have "root \<noteq> JNull \<and> root \<noteq> JUndefined" by auto
  moreover from assms have "truthy (js_get root ''data'')"
    by (cases "js_get root ''data''") (auto simp: array_index_def is_digit_def split: if_splits)
  ultimately show ?thesis by (simp add: js_member_def)
qed

lemmas scenario_defs = scripted_world_def js_member_def js_index_def js_or_def starts_with_def
  request_def lookup_caught_def catch_null_def error_with_def Let_def

section \<open>Requests sent\<close>

lemma request_sent: "snd (request w url params) = [Get url params]"
  by (simp add: request_def)

lemma getUserById_sent:
  assumes "js_to_string (num_string w) ident = Some i"
  shows "snd (getUserById w ident) = [Get (''/user/user-'' @ i) []]"
  using request_sent [of w "''/user/user-'' @ i" "[]"]
  by (auto simp: getUserById_def assms split: prod.splits sum.splits)

lemma getUserByUsername_sent:
  "snd (getUserByUsername w uname) = [Get ''/user'' [(''username'', uname)]]"
  using request_sent [of w "''/user''" "[(''username'', uname)]"]
  by (auto simp: getUserByUsername_def split: prod.splits sum.splits)

lemma getAvatarData_sent:
  assumes "js_to_string (num_string w) ident = Some i"
  shows "snd (getAvatarData w ident) = [Get (''/avatar/avatar-'' @ i) []]"
  using request_sent [of w "''/avatar/avatar-'' @ i" "[]"]
  by (auto simp: getAvatarData_def assms split: prod.splits sum.splits)

lemma getProfileData_sent:
  assumes "js_to_string (num_string w) ident = Some i"
  shows "snd (getProfileData w ident) = [Get (''/profile/profile-user-'' @ i) []]"
  using request_sent [of w "''/profile/profile-user-'' @ i" "[]"]
  by (auto simp: getProfileData_def assms split: prod.splits sum.splits)

text \<open>A lookup whose argument has no string form rejects before it sends anything.\<close>

lemma lookups_unprintable:
  assumes "js_to_string (num_string w) ident = None"
  shows "getUserById w ident = (Inl TypeError, [])"
    and "getAvatarData w ident = (Inl TypeError, [])"
    and "getProfileData w ident = (Inl TypeError, [])"
  by (simp_all add: getUserById_def getAvatarData_def getProfileData_def lookup_caught_def assms)

lemma lookups_printable:
  assumes "js_to_string (num_string w) ident = Some i"
  shows "isl (fst (getUserById w ident)) = False"
    and "isl (fst (getAvatarData w ident)) = False"
    and "isl (fst (getProfileData w ident)) = False"
  by (auto simp: getUserById_def getAvatarData_def getProfileData_def lookup_caught_def assms
      split: prod.splits sum.splits option.splits)

text \<open>Beyond the safe range the path carries what the runtime prints.\<close>

lemma big_number_paths:
  assumes "9007199254740991 < \<bar>n\<bar>"
  shows "snd (getAvatarData w (JNum n)) = [Get (''/avatar/avatar-'' @ num_string w n) []]"
proof -
  from assms have "js_to_string (num_string w) (JNum n) = Some (num_string w n)"
    by simp
  then show ?thesis by (rule getAvatarData_sent)
qed

lemma digits_of_42: "digits_of 42 = ''42''"
  by (simp add: digits_of.simps)

lemma digits_of_12345: "digits_of 12345 = ''12345''"
  by (simp add: digits_of.simps)

text \<open>
  Claim C9. For every ID that has a string form, whatever the upstream
  answers, the lookup of a user by ID sends exactly one request, to
  \<^verbatim>\<open>/user/user-<id>\<close>; the avatar lookup sends exactly one, to
  \<^verbatim>\<open>/avatar/avatar-<id>\<close>; the profile lookup exactly one, to
  \<^verbatim>\<open>/profile/profile-user-<id>\<close>, where \<^verbatim>\<open><id>\<close> is that string form: the
  string itself for a string ID, the decimal digits for an integer in the safe
  range. For the ID 42, as a string or as a number, the user path is
  \<^verbatim>\<open>/user/user-42\<close>. An ID that has no string form makes each lookup throw
  before a path is built, and no request is sent.
\<close>

theorem resource_paths:
  "(js_to_string (num_string w) ident = Some i \<longrightarrow>
      snd (getUserById w ident) = [Get (''/user/user-'' @ i) []]
      \<and> snd (getAvatarData w ident) = [Get (''/avatar/avatar-'' @ i) []]
      \<and> snd (getProfileData w ident) = [Get (''/profile/profile-user-'' @ i) []])
   \<and> snd (getUserById w (JStr s)) = [Get (''/user/user-'' @ s) []]
   \<and> snd (getAvatarData w (JStr s)) = [Get (''/avatar/avatar-'' @ s) []]
   \<and> snd (getProfileData w (JStr s)) = [Get (''/profile/profile-user-'' @ s) []]
   \<and> (\<bar>n\<bar> \<le> 9007199254740991 \<longrightarrow>
      snd (getUserById w (JNum n)) = [Get (''/user/user-'' @ int_to_string n) []]
      \<and> snd (getAvatarData w (JNum n)) = [Get (''/avatar/avatar-'' @ int_to_string n) []]
      \<and> snd (getProfileData w (JNum n)) =
          [Get (''/profile/profile-user-'' @ int_to_string n) []])
   \<and> snd (getUserById w (JStr ''42'')) = [Get ''/user/user-42'' []]
   \<and> snd (getUserById w (JNum 42)) = [Get ''/user/user-42'' []]
   \<and> (js_to_string (num_string w) ident = None \<longrightarrow>
      snd (getUserById w ident) = [] \<and> snd (getAvatarData w ident) = []
      \<and> snd (getProfileData w ident) = [])"
proof -
  have str: "js_to_string (num_string w) (JStr t) = Some t" for t
    by simp
  have num: "js_to_string (num_string w) (JNum n) = Some (int_to_string n)"
    if "\<bar>n\<bar> \<le> 9007199254740991"
    using that by simp
  have n42: "js_to_string (num_string w) (JNum 42) = Some ''42''"
    by (simp add: int_to_string_def digits_of_42)
  show ?thesis
    using getUserById_sent [OF str [of s]] getAvatarData_sent [OF str [of s]]
      getProfileData_sent [OF str [of s]] getUserById_sent [OF str [of "''42''"]]
      getUserById_sent [OF n42]
    by (auto simp: getUserById_sent getAvatarData_sent getProfileData_sent num
        lookups_unprintable)
qed

theorem resource_paths_witness:
  "snd (getUserById search_hit_world (JNum 12345)) = [Get ''/user/user-12345'' []]
   \<and> snd (getAvatarData search_hit_world (JNum 12345)) = [Get ''/avatar/avatar-12345'' []]
   \<and> snd (getProfileData search_hit_world (JNum 12345)) =
       [Get ''/profile/profile-user-12345'' []]
   \<and> snd (getUserById search_hit_world (JObj [(''toString'', JNum 1)])) = []
   \<and> snd (getAvatarData search_hit_world (JObj [(''toString'', JNum 1)])) = []
   \<and> snd (getProfileData search_hit_world (JObj [(''toString'', JNum 1)])) = []"
proof -
  have a: "js_to_string (num_string search_hit_world) (JNum 12345) = Some ''12345''"
    by (simp add: int_to_string_def digits_of_12345)
  have b: "js_to_string (num_string search_hit_world) (JObj [(''toString'', JNum 1)]) = None"
    by simp
  from resource_paths [of search_hit_world "JNum 12345" "''12345''"] a
    resource_paths [of search_hit_world "JObj [(''toString'', JNum 1)]"] b
  show ?thesis
    by simp
qed

section \<open>Classifying the query\<close>

lemma digits_to_end_iff: "digits_to_end s \<longleftrightarrow> set s \<subseteq> set ''0123456789''"
  by (induction s) (auto simp: is_digit_def)

lemma isNumeric_JStr:
  "isNumeric big (JStr s) = Some (s \<noteq> [] \<and> set s \<subseteq> set ''0123456789'')"
  by (cases s) (auto simp: isNumeric_def digits_to_end_iff is_digit_def)

lemma getUserData_first_request:
  assumes "isNumeric (num_string w) query = Some numeric"
    and "js_to_string (num_string w) query = Some q"
  shows "take 1 (snd (getUserData w query)) =
     (if numeric then [Get (''/user/user-'' @ q) []] else [Get ''/user'' [(''username'', query)]])"
proof (cases numeric)
  case True
  obtain r sent where p: "getUserById w query = (r, sent)"
    by (cases "getUserById w query")
  with getUserById_sent [OF assms(2)] have "sent = [Get (''/user/user-'' @ q) []]" by simp
  with p True assms(1) show ?thesis
    by (simp add: getUserData_def split: prod.splits sum.splits option.splits)
next
  case False
  obtain r sent where p: "getUserByUsername w query = (r, sent)"
    by (cases "getUserByUsername w query")
  with getUserByUsername_sent [of w query] have "sent = [Get ''/user'' [(''username'', query)]]"
    by simp
  with p False assms(1) show ?thesis
    by (simp add: getUserData_def split: prod.splits sum.splits option.splits)
qed

lemma getUserData_user:
  assumes "isNumeric (num_string w) query = Some numeric"
  shows "(case fst (getUserData w query) of
            Inl e \<Rightarrow> Inl e
          | Inr res \<Rightarrow> Inr (map_option user res)) =
         fst (if numeric then getUserById w query else getUserByUsername w query)"
proof -
  obtain r sent where
    p: "(if numeric then getUserById w query else getUserByUsername w query) = (r, sent)"
    by (cases "if numeric then getUserById w query else getUserByUsername w query")
  show ?thesis
    unfolding getUserData_def assms option.case p
    by (simp split: prod.splits sum.splits option.splits)
qed

text \<open>
  Claim C5. When the query string is one or more decimal digits and nothing
  else, the first request of a lookup is the direct one,
  \<^verbatim>\<open>GET /user/user-<query>\<close>, and the outcome of the primary lookup is that of
  the lookup by ID; for every other query string the first request is the search
  \<^verbatim>\<open>GET /user?username=<query>\<close> and the outcome is that of the lookup by
  username.
\<close>

theorem query_dispatch:
  "take 1 (snd (getUserData w (JStr s))) =
     (if s \<noteq> [] \<and> set s \<subseteq> set ''0123456789''
      then [Get (''/user/user-'' @ s) []]
      else [Get ''/user'' [(''username'', JStr s)]])
   \<and> (case fst (getUserData w (JStr s)) of
         Inl e \<Rightarrow> Inl e
       | Inr res \<Rightarrow> Inr (map_option user res)) =
     fst (if s \<noteq> [] \<and> set s \<subseteq> set ''0123456789''
          then getUserById w (JStr s) else getUserByUsername w (JStr s))"
proof -
  have q: "js_to_string (num_string w) (JStr s) = Some s"
    by simp
  show ?thesis
    using getUserData_first_request [OF isNumeric_JStr q] getUserData_user [OF isNumeric_JStr]
    by (simp only: simp_thms)
qed

theorem query_dispatch_witness:
  "take 1 (snd (getUserData search_hit_world (JStr ''12345''))) = [Get ''/user/user-12345'' []]
   \<and> take 1 (snd (getUserData search_hit_world (JStr ''abc''))) =
       [Get ''/user'' [(''username'', JStr ''abc'')]]
   \<and> take 1 (snd (getUserData search_hit_world (JStr ''12a''))) =
       [Get ''/user'' [(''username'', JStr ''12a'')]]
   \<and> take 1 (snd (getUserData search_hit_world (JStr []))) =
       [Get ''/user'' [(''username'', JStr [])]]"
  using query_dispatch [of search_hit_world "''12345''", THEN conjunct1]
    query_dispatch [of search_hit_world "''abc''", THEN conjunct1]
    query_dispatch [of search_hit_world "''12a''", THEN conjunct1]
    query_dispatch [of search_hit_world "[]", THEN conjunct1]
  by simp

text \<open>A query that has no string form makes the test throw: the lookup rejects
  and sends nothing.\<close>

lemma getUserData_unprintable:
  assumes "js_to_string (num_string w) query = None"
  shows "getUserData w query = (Inl TypeError, [])"
  by (simp add: getUserData_def isNumeric_def assms)

text \<open>A query string never makes the lookup reject.\<close>

lemma getUserData_string_returns: "\<not> isl (fst (getUserData w (JStr s)))"
proof
  let ?numeric = "s \<noteq> [] \<and> set s \<subseteq> set ''0123456789''"
  have q: "js_to_string (num_string w) (JStr s) = Some s" by simp
  have a: "\<not> isl (fst (getUserById w (JStr s)))"
    using lookups_printable(1) [OF q] by simp
  have b: "\<not> isl (fst (getUserByUsername w (JStr s)))"
    by (auto simp: getUserByUsername_def lookup_caught_def
        split: prod.splits sum.splits option.splits bool.splits)
  assume "isl (fst (getUserData w (JStr s)))"
  then obtain e where "fst (getUserData w (JStr s)) = Inl e"
    by (cases "fst (getUserData w (JStr s))") simp_all
  with getUserData_user [OF isNumeric_JStr, of w s]
  have "fst (if ?numeric then getUserById w (JStr s) else getUserByUsername w (JStr s)) = Inl e"
    by simp
  then have "isl (fst (if ?numeric then getUserById w (JStr s)
                       else getUserByUsername w (JStr s)))"
    by simp
  moreover have "\<not> isl (fst (if P then getUserById w (JStr s)
                            else getUserByUsername w (JStr s)))" for P
    using a b by (cases P) simp_all
  ultimately show False
    by (rule notE [rotated])
qed

section \<open>Searching by username\<close>

text \<open>
  Claim C1. The claim asks for the not-found result when the search result has
  an empty \<^verbatim>\<open>items\<close> list. On the search for \<^verbatim>\<open>abc\<close> that matches no
  account, the code instead normalizes the search result itself and returns a
  user whose id is \<^verbatim>\<open>unknown\<close> and whose other fields are the defaults.
\<close>

theorem empty_search_returns_unknown_user:
  "fst (getUserByUsername empty_search_world (JStr ''abc'')) =
     Inr (Some \<lparr>user_id = JStr ''unknown'', username = JStr [], displayName = JStr [],
            gender = JStr [], age = JNull, country = JStr [], state = JStr [],
            avatarImage = JStr [], avatarPortraitImage = JStr [],
            isVip = JBool False, isCreator = JBool False, isAp = JBool False,
            isStaff = JBool False, isAdult = JBool False, isAgeVerified = JBool False,
            created = Now (fixed_clock 0), registered = Now (fixed_clock 1)\<rparr>)"
  by (simp add: getUserByUsername_def empty_search_world_def empty_search_envelope_def
      parseUserData_def scenario_defs)

text \<open>In general, an empty \<^verbatim>\<open>items\<close> list makes the search return the
  normalization of the root entry itself, which is never null.\<close>

lemma empty_items_normalizes_wrapper:
  assumes "fst (request w ''/user'' [(''username'', uname)]) = Inr response"
    and "truthy (js_get response ''denormalized'')"
    and "truthy (js_get response ''id'')"
    and "js_index (num_string w) (js_get response ''denormalized'') (js_get response ''id'') =
           Some root"
    and "js_get (js_get root ''data'') ''items'' = JArr []"
  shows "fst (getUserByUsername w uname) = Inr (parseUserData (clock w) root)
         \<and> fst (getUserByUsername w uname) \<noteq> Inr None"
proof -
  obtain sent where r: "request w ''/user'' [(''username'', uname)] = (Inr response, sent)"
    using assms(1) by (cases "request w ''/user'' [(''username'', uname)]") simp
  have m: "js_member root ''data'' = Some (js_get root ''data'')"
    and t: "truthy (js_get root ''data'')"
    using items_list_receiver [OF assms(5)] by simp_all
  have e: "fst (getUserByUsername w uname) = Inr (parseUserData (clock w) root)"
    unfolding getUserByUsername_def r
    by (simp add: assms(2,3,4) m t assms(5) js_get_JArr_length Let_def del: js_get.simps)
  from parse_total [OF t] e show ?thesis by auto
qed

text \<open>
  Claim C6. When the search answers with an envelope whose root entry (the
  entry the envelope's \<^verbatim>\<open>id\<close> points to) has a non-empty \<^verbatim>\<open>items\<close> list,
  the result is the normalization of the entry that the first item names in the
  same envelope: the entry under the item itself when the item is a string,
  and under its string form for every other item that has one. A first item
  that has no string form cannot be used as a key: the lookup of the entry
  throws, and the error handler of the search takes over.
\<close>

theorem search_result_dereferenced:
  assumes "fst (request w ''/user'' [(''username'', uname)]) = Inr response"
    and "truthy (js_get response ''denormalized'')"
    and "truthy (js_get response ''id'')"
    and "js_index (num_string w) (js_get response ''denormalized'') (js_get response ''id'') =
           Some root"
    and "js_get (js_get root ''data'') ''items'' = JArr (x # xs)"
  shows "(x = JStr key \<longrightarrow>
            fst (getUserByUsername w uname) =
              Inr (parseUserData (clock w) (js_get (js_get response ''denormalized'') key)))
       \<and> (js_to_string (num_string w) x = Some key \<longrightarrow>
            fst (getUserByUsername w uname) =
              Inr (parseUserData (clock w) (js_get (js_get response ''denormalized'') key)))
       \<and> (js_to_string (num_string w) x = None \<longrightarrow>
            fst (getUserByUsername w uname) = lookup_caught w uname)"
proof -
  obtain sent where r: "request w ''/user'' [(''username'', uname)] = (Inr response, sent)"
    using assms(1) by (cases "request w ''/user'' [(''username'', uname)]") simp
  have m: "js_member root ''data'' = Some (js_get root ''data'')"
    and t: "truthy (js_get root ''data'')"
    using items_list_receiver [OF assms(5)] by simp_all
  have e: "fst (getUserByUsername w uname) =
      (case js_index (num_string w) (js_get response ''denormalized'') x of
         None \<Rightarrow> lookup_caught w uname
       | Some actualUserData \<Rightarrow> Inr (parseUserData (clock w) actualUserData))"
    unfolding getUserByUsername_def r
    by (simp add: assms(2,3,4) m t assms(5) js_get_JArr_first js_get_JArr_length Let_def
        del: js_get.simps)
  show ?thesis
    unfolding e js_index_def by (auto simp del: js_get.simps)
qed

lemma odd_item_no_key:
  "js_to_string (num_string odd_item_world) odd_id = None"
  by (simp add: odd_id_def)

theorem search_result_dereferenced_witness:
  "fst (getUserByUsername search_hit_world (JStr ''abc'')) =
     Inr (parseUserData fixed_clock
       (JObj [(''data'', JObj [(''id'', JStr ''12345''), (''username'', JStr ''abc'')])]))
   \<and> fst (getUserByUsername search_hit_world (JStr ''abc'')) = Inr (Some user_12345)
   \<and> fst (getUserByUsername odd_item_world (JStr ''abc'')) = Inr None"
proof -
  have a: "fst (getUserByUsername search_hit_world (JStr ''abc'')) =
     Inr (parseUserData fixed_clock
       (JObj [(''data'', JObj [(''id'', JStr ''12345''), (''username'', JStr ''abc'')])]))"
    using search_result_dereferenced [of search_hit_world "JStr ''abc''" search_hit_envelope
        "JObj [(''data'', JObj [(''items'', JArr [JStr ''user-12345''])])]"
        "JStr ''user-12345''" "[]" "''user-12345''"]
    by (simp add: search_hit_world_def search_hit_envelope_def scenario_defs)
  have b: "parseUserData fixed_clock
       (JObj [(''data'', JObj [(''id'', JStr ''12345''), (''username'', JStr ''abc'')])]) =
       Some user_12345"
    by (simp add: parseUserData_def js_or_def user_12345_def)
  have c: "fst (getUserByUsername odd_item_world (JStr ''abc'')) = Inr None"
    using search_result_dereferenced [of odd_item_world "JStr ''abc''" odd_item_envelope
        "JObj [(''data'', JObj [(''items'', JArr [odd_id])])]" odd_id "[]"] odd_item_no_key
    by (simp add: odd_item_world_def odd_item_envelope_def scenario_defs)
  from a b c show ?thesis by simp
qed

section \<open>Avatar and profile\<close>

lemma getAvatarData_failed:
  assumes "js_to_string (num_string w) ident = Some i"
    and "isl (fst (request w (''/avatar/avatar-'' @ i) []))"
  shows "catch_null (fst (getAvatarData w ident)) = None"
  using assms
  by (auto simp: getAvatarData_def lookup_caught_def catch_null_def isl_def
      split: prod.splits sum.splits)

lemma getProfileData_failed:
  assumes "js_to_string (num_string w) ident = Some i"
    and "isl (fst (request w (''/profile/profile-user-'' @ i) []))"
  shows "catch_null (fst (getProfileData w ident)) = None"
  using assms
  by (auto simp: getProfileData_def lookup_caught_def catch_null_def isl_def
      split: prod.splits sum.splits)

lemma catch_null_rejected: "isl r \<Longrightarrow> catch_null r = None"
  by (cases r) (simp_all add: catch_null_def)

lemma getUserData_found:
  assumes "isNumeric (num_string w) query = Some numeric"
    and "fst (if numeric then getUserById w query else getUserByUsername w query) = Inr (Some u)"
  shows "fst (getUserData w query) =
           Inr (Some \<lparr>user = u, avatar = catch_null (fst (getAvatarData w (user_id u))),
                       profile = catch_null (fst (getProfileData w (user_id u)))\<rparr>)"
proof -
  obtain sent where
    "(if numeric then getUserById w query else getUserByUsername w query) = (Inr (Some u), sent)"
    using assms(2)
    by (cases "if numeric then getUserById w query else getUserByUsername w query") simp
  then show ?thesis
    unfolding getUserData_def assms(1) option.case
    by (simp split: prod.splits)
qed

lemma search_hit_primary:
  "fst (getUserByUsername search_hit_world (JStr ''abc'')) = Inr (Some user_12345)"
  by (simp add: getUserByUsername_def search_hit_world_def search_hit_envelope_def
      parseUserData_def scenario_defs array_index_def is_digit_def user_12345_def)

lemma search_hit_avatar_rejected:
  "isl (fst (request search_hit_world ''/avatar/avatar-12345'' []))"
  by (simp add: search_hit_world_def scenario_defs)

lemma search_hit_profile:
  "fst (getProfileData search_hit_world (JStr ''12345'')) =
     Inr (Some \<lparr>profile_image = JStr [], online = JBool True, profile_username = JStr [],
            profile_displayName = JStr ''Abc'', followingCount = JNum 0,
            followerCount = JNum 0\<rparr>)"
  by (simp add: getProfileData_def search_hit_world_def profile_envelope_def
      parseProfileData_def scenario_defs)

lemma id_hit_primary:
  "fst (getUserById id_hit_world (JStr ''12345'')) = Inr (Some user_12345)"
  by (simp add: getUserById_def id_hit_world_def user_envelope_def
      parseUserData_def scenario_defs user_12345_def)

lemma id_hit_profile_rejected:
  "isl (fst (request id_hit_world ''/profile/profile-user-12345'' []))"
  by (simp add: id_hit_world_def scenario_defs)

lemma id_hit_avatar:
  "fst (getAvatarData id_hit_world (JStr ''12345'')) =
     Inr (Some \<lparr>lookUrl = JStr ''l'', assetUrl = JStr [], avatar_gender = JStr ''f'',
            products = JArr []\<rparr>)"
  by (simp add: getAvatarData_def id_hit_world_def avatar_envelope_def
      parseAvatarData_def scenario_defs)

lemma odd_id_primary:
  "fst (getUserById odd_id_world (JStr ''5'')) = Inr (Some odd_user)"
  by (simp add: getUserById_def odd_id_world_def odd_id_envelope_def
      parseUserData_def scenario_defs odd_user_def odd_id_def)

lemma odd_id_lookups_reject:
  "isl (fst (getAvatarData odd_id_world odd_id))"
  "isl (fst (getProfileData odd_id_world odd_id))"
  by (simp_all add: getAvatarData_def getProfileData_def lookup_caught_def odd_id_def)

text \<open>
  Claim C7. When the primary lookup finds a user, the overall lookup returns a
  combined result with that user, whatever the two further lookups do. If the
  avatar lookup fails, because it rejects or because its request fails, the
  avatar is null and the profile is what the profile lookup yields by itself;
  if the profile lookup fails, the profile is null and the avatar is what the
  avatar lookup yields by itself.
\<close>

theorem sub_fetch_failures_isolated:
  assumes "isNumeric (num_string w) query = Some numeric"
    and "fst (if numeric then getUserById w query else getUserByUsername w query) = Inr (Some u)"
  shows "(isl (fst (getAvatarData w (user_id u)))
          \<or> js_to_string (num_string w) (user_id u) = Some i
            \<and> isl (fst (request w (''/avatar/avatar-'' @ i) [])) \<longrightarrow>
            fst (getUserData w query) =
              Inr (Some \<lparr>user = u, avatar = None,
                          profile = catch_null (fst (getProfileData w (user_id u)))\<rparr>))
       \<and> (isl (fst (getProfileData w (user_id u)))
          \<or> js_to_string (num_string w) (user_id u) = Some i
            \<and> isl (fst (request w (''/profile/profile-user-'' @ i) [])) \<longrightarrow>
            fst (getUserData w query) =
              Inr (Some \<lparr>user = u, avatar = catch_null (fst (getAvatarData w (user_id u))),
                          profile = None\<rparr>))
       \<and> fst (getUserData w query) =
            Inr (Some \<lparr>user = u, avatar = catch_null (fst (getAvatarData w (user_id u))),
                        profile = catch_null (fst (getProfileData w (user_id u)))\<rparr>)"
proof -
  note found = getUserData_found [OF assms]
  have a: "catch_null (fst (getAvatarData w (user_id u))) = None"
    if "isl (fst (getAvatarData w (user_id u)))
        \<or> js_to_string (num_string w) (user_id u) = Some i
          \<and> isl (fst (request w (''/avatar/avatar-'' @ i) []))"
    using that catch_null_rejected getAvatarData_failed by blast
  have p: "catch_null (fst (getProfileData w (user_id u))) = None"
    if "isl (fst (getProfileData w (user_id u)))
        \<or> js_to_string (num_string w) (user_id u) = Some i
          \<and> isl (fst (request w (''/profile/profile-user-'' @ i) []))"
    using that catch_null_rejected getProfileData_failed by blast
  show ?thesis
    using found a p by simp
qed

theorem sub_fetch_failures_isolated_witness:
  "fst (getUserData search_hit_world (JStr ''abc'')) =
     Inr (Some \<lparr>user = user_12345, avatar = None,
          profile =
            Some \<lparr>profile_image = JStr [], online = JBool True, profile_username = JStr [],
                   profile_displayName = JStr ''Abc'', followingCount = JNum 0,
                   followerCount = JNum 0\<rparr>\<rparr>)
   \<and> fst (getUserData id_hit_world (JStr ''12345'')) =
     Inr (Some \<lparr>user = user_12345,
          avatar =
            Some \<lparr>lookUrl = JStr ''l'', assetUrl = JStr [], avatar_gender = JStr ''f'',
                   products = JArr []\<rparr>,
          profile = None\<rparr>)
   \<and> fst (getUserData odd_id_world (JStr ''5'')) =
     Inr (Some \<lparr>user = odd_user, avatar = None, profile = None\<rparr>)"
proof -
  have i: "user_id user_12345 = JStr ''12345''"
    by (simp add: user_12345_def)
  have s: "js_to_string (num_string w) (JStr ''12345'') = Some ''12345''" for w
    by simp
  have n1: "isNumeric (num_string search_hit_world) (JStr ''abc'') = Some False"
    by (simp add: isNumeric_def is_digit_def)
  have n2: "isNumeric (num_string id_hit_world) (JStr ''12345'') = Some True"
    by (simp add: isNumeric_def is_digit_def)
  have n3: "isNumeric (num_string odd_id_world) (JStr ''5'') = Some True"
    by (simp add: isNumeric_def is_digit_def)
  have p1: "fst (if False then getUserById search_hit_world (JStr ''abc'')
                 else getUserByUsername search_hit_world (JStr ''abc'')) = Inr (Some user_12345)"
    using search_hit_primary by simp
  have p2: "fst (if True then getUserById id_hit_world (JStr ''12345'')
                 else getUserByUsername id_hit_world (JStr ''12345'')) = Inr (Some user_12345)"
    using id_hit_primary by simp
  have p3: "fst (if True then getUserById odd_id_world (JStr ''5'')
                 else getUserByUsername odd_id_world (JStr ''5'')) = Inr (Some odd_user)"
    using odd_id_primary by simp
  have o: "user_id odd_user = odd_id"
    by (simp add: odd_user_def)
  have a: "fst (getUserData search_hit_world (JStr ''abc'')) =
     Inr (Some \<lparr>user = user_12345, avatar = None,
          profile = catch_null (fst (getProfileData search_hit_world (JStr ''12345'')))\<rparr>)"
    using sub_fetch_failures_isolated [OF n1 p1, of "''12345''"] search_hit_avatar_rejected
    by (simp add: i)
  have b: "fst (getUserData id_hit_world (JStr ''12345'')) =
     Inr (Some \<lparr>user = user_12345,
          avatar = catch_null (fst (getAvatarData id_hit_world (JStr ''12345''))),
          profile = None\<rparr>)"
    using sub_fetch_failures_isolated [OF n2 p2, of "''12345''"] id_hit_profile_rejected
    by (simp add: i)
  have c: "fst (getUserData odd_id_world (JStr ''5'')) =
     Inr (Some \<lparr>user = odd_user, avatar = None, profile = None\<rparr>)"
    using sub_fetch_failures_isolated [OF n3 p3] odd_id_lookups_reject
    by (simp add: o catch_null_rejected)
  from a b c search_hit_profile id_hit_avatar show ?thesis
    by (simp add: catch_null_def)
qed

text \<open>In the last scenario the two further lookups send nothing.\<close>

lemma odd_id_requests:
  "snd (getUserData odd_id_world (JStr ''5'')) = [Get ''/user/user-5'' []]"
  by (simp add: getUserData_def isNumeric_def is_digit_def getUserById_def getAvatarData_def
      getProfileData_def odd_id_world_def odd_id_envelope_def parseUserData_def scenario_defs
      odd_id_def)

section \<open>The identifier of a normalized user\<close>

text \<open>
  Claim C10. A user payload that has a data object is normalized to a record,
  and the id of that record is truthy: it is not null, not undefined and not the
  empty string. When the data carries no id and no \<^verbatim>\<open>_id\<close> and no key of the
  entry contains \<^verbatim>\<open>user-\<close>, the id is the string \<^verbatim>\<open>unknown\<close>.
\<close>

theorem user_id_never_empty:
  assumes "truthy (js_get userData ''data'')"
  shows "\<exists>r. parseUserData clk userData = Some r
           \<and> truthy (user_id r)
           \<and> user_id r \<noteq> JNull \<and> user_id r \<noteq> JUndefined \<and> user_id r \<noteq> JStr []
           \<and> (\<not> truthy (js_get (js_get userData ''data'') ''id'')
                \<and> \<not> truthy (js_get (js_get userData ''data'') ''_id'')
                \<and> (\<forall>key \<in> set (object_keys userData). \<not> str_includes key ''user-'')
               \<longrightarrow> user_id r = JStr ''unknown'')"
proof -
  have tu: "truthy userData" using assms by (rule data_receiver_truthy)
  obtain r where r: "parseUserData clk userData = Some r"
    using assms tu by (simp add: parseUserData_def Let_def)
  have t: "truthy (user_id r)"
    using r assms tu by (auto simp: parseUserData_def Let_def js_or_def)
  then have ne: "user_id r \<noteq> JNull \<and> user_id r \<noteq> JUndefined \<and> user_id r \<noteq> JStr []"
    by auto
  have "user_id r = JStr ''unknown''"
    if a: "\<not> truthy (js_get (js_get userData ''data'') ''id'')"
      and b: "\<not> truthy (js_get (js_get userData ''data'') ''_id'')"
      and c: "\<forall>key \<in> set (object_keys userData). \<not> str_includes key ''user-''"
  proof -
    from c have "find (\<lambda>key. str_includes key ''user-'') (object_keys userData) = None"
      by (rule find_none)
    with r assms tu a b show ?thesis
      by (auto simp: parseUserData_def Let_def js_or_def)
  qed
  with r t ne show ?thesis by blast
qed

theorem user_id_never_empty_witness:
  "map_option user_id (parseUserData fixed_clock bare_user_entry) = Some (JStr ''unknown'')"
proof -
  have d: "truthy (js_get bare_user_entry ''data'')"
    by (simp add: bare_user_entry_def)
  have n: "\<not> truthy (js_get (js_get bare_user_entry ''data'') ''id'')
        \<and> \<not> truthy (js_get (js_get bare_user_entry ''data'') ''_id'')
        \<and> (\<forall>key \<in> set (object_keys bare_user_entry). \<not> str_includes key ''user-'')"
    by (simp add: bare_user_entry_def starts_with_def)
  from user_id_never_empty [OF d, of fixed_clock] n show ?thesis
    by auto
qed

text \<open>
  Claim C3. The claim asks for the id \<^verbatim>\<open>123\<close> when the envelope's only user
  entry is keyed \<^verbatim>\<open>user-123\<close> and its data has no identifier. The code
  searches the keys of the entry (here only \<^verbatim>\<open>data\<close>), not the keys of the
  envelope, finds none, and the id is \<^verbatim>\<open>unknown\<close>.
\<close>

theorem envelope_key_not_searched:
  "fst (getUserById bare_user_world (JStr ''123'')) =
     Inr (Some \<lparr>user_id = JStr ''unknown'', username = JStr ''abc'', displayName = JStr [],
            gender = JStr [], age = JNull, country = JStr [], state = JStr [],
            avatarImage = JStr [], avatarPortraitImage = JStr [],
            isVip = JBool False, isCreator = JBool False, isAp = JBool False,
            isStaff = JBool False, isAdult = JBool False, isAgeVerified = JBool False,
            created = Now (fixed_clock 0), registered = Now (fixed_clock 1)\<rparr>)"
  by (simp add: getUserById_def bare_user_world_def bare_user_envelope_def
      parseUserData_def scenario_defs)

section \<open>Reading a field in either naming convention\<close>

lemma parseUserData_fields:
  assumes "parseUserData clk userData = Some r"
  shows "displayName r =
           js_or (js_get (js_get userData ''data'') ''display_name'')
             (js_or (js_get (js_get userData ''data'') ''displayName'') (JStr []))
       \<and> avatarImage r =
           js_or (js_get (js_get userData ''data'') ''avatar_image'')
             (js_or (js_get (js_get userData ''data'') ''avatarImage'') (JStr []))
       \<and> avatarPortraitImage r =
           js_or (js_get (js_get userData ''data'') ''avatar_portrait_image'')
             (js_or (js_get (js_get userData ''data'') ''avatarPortraitImage'') (JStr []))
       \<and> isVip r =
           js_or (js_get (js_get userData ''data'') ''is_vip'')
             (js_or (js_get (js_get userData ''data'') ''isVip'') (JBool False))
       \<and> isCreator r =
           js_or (js_get (js_get userData ''data'') ''is_creator'')
             (js_or (js_get (js_get userData ''data'') ''isCreator'') (JBool False))
       \<and> isAp r =
           js_or (js_get (js_get userData ''data'') ''is_ap'')
             (js_or (js_get (js_get userData ''data'') ''isAp'') (JBool False))
       \<and> isStaff r =
           js_or (js_get (js_get userData ''data'') ''is_staff'')
             (js_or (js_get (js_get userData ''data'') ''isStaff'') (JBool False))
       \<and> isAdult r =
           js_or (js_get (js_get userData ''data'') ''is_adult'')
             (js_or (js_get (js_get userData ''data'') ''isAdult'') (JBool False))
       \<and> isAgeVerified r =
           js_or (js_get (js_get userData ''data'') ''is_ageverified'')
             (js_or (js_get (js_get userData ''data'') ''isAgeVerified'') (JBool False))"
proof -
  from assms have ok: "(\<not> truthy userData \<or> \<not> truthy (js_get userData ''data'')) = False"
    by (simp add: parseUserData_def split: if_splits)
  from assms have r: "r = the (parseUserData clk userData)"
    by simp
  show ?thesis
    unfolding r parseUserData_def Let_def
    by (simp only: ok if_False option.sel user_record.simps simp_thms)
qed

lemma parseUserData_dual:
  assumes "parseUserData clk userData = Some r" and "(s, c, d, field) \<in> set user_dual_fields"
  shows "field r =
           js_or (js_get (js_get userData ''data'') s) (js_or (js_get (js_get userData ''data'') c) d)"
  using assms(2) unfolding user_dual_fields_def
  by (auto simp only: list.set insert_iff empty_iff prod.inject parseUserData_fields [OF assms(1)])

lemma parseAvatarData_fields:
  assumes "parseAvatarData avatarData = Some r"
  shows "lookUrl r =
           js_or (js_get (js_get avatarData ''data'') ''look_url'')
             (js_or (js_get (js_get avatarData ''data'') ''lookUrl'') (JStr []))
       \<and> assetUrl r =
           js_or (js_get (js_get avatarData ''data'') ''asset_url'')
             (js_or (js_get (js_get avatarData ''data'') ''assetUrl'') (JStr []))"
proof -
  from assms have ok: "(\<not> truthy avatarData \<or> \<not> truthy (js_get avatarData ''data'')) = False"
    by (simp add: parseAvatarData_def split: if_splits)
  from assms have r: "r = the (parseAvatarData avatarData)"
    by simp
  show ?thesis
    unfolding r parseAvatarData_def Let_def
    by (simp only: ok if_False option.sel avatar_record.simps simp_thms)
qed

lemma parseAvatarData_dual:
  assumes "parseAvatarData avatarData = Some r" and "(s, c, d, field) \<in> set avatar_dual_fields"
  shows "field r =
           js_or (js_get (js_get avatarData ''data'') s) (js_or (js_get (js_get avatarData ''data'') c) d)"
  using assms(2) unfolding avatar_dual_fields_def
  by (auto simp only: list.set insert_iff empty_iff prod.inject parseAvatarData_fields [OF assms(1)])

lemma parseProfileData_fields:
  assumes "parseProfileData profileData = Some r"
  shows "profile_username r =
           js_or (js_get (js_get profileData ''data'') ''avatar_name'')
             (js_or (js_get (js_get profileData ''data'') ''avatarName'') (JStr []))
       \<and> followingCount r =
           js_or (js_get (js_get profileData ''data'') ''approx_following_count'')
             (js_or (js_get (js_get profileData ''data'') ''followingCount'') (JNum 0))
       \<and> followerCount r =
           js_or (js_get (js_get profileData ''data'') ''approx_follower_count'')
             (js_or (js_get (js_get profileData ''data'') ''followerCount'') (JNum 0))"
proof -
  from assms have ok: "(\<not> truthy profileData \<or> \<not> truthy (js_get profileData ''data'')) = False"
    by (simp add: parseProfileData_def split: if_splits)
  from assms have r: "r = the (parseProfileData profileData)"
    by simp
  show ?thesis
    unfolding r parseProfileData_def Let_def
    by (simp only: ok if_False option.sel profile_record.simps simp_thms)
qed

lemma parseProfileData_dual:
  assumes "parseProfileData profileData = Some r" and "(s, c, d, field) \<in> set profile_dual_fields"
  shows "field r =
           js_or (js_get (js_get profileData ''data'') s) (js_or (js_get (js_get profileData ''data'') c) d)"
  using assms(2) unfolding profile_dual_fields_def
  by (auto simp only: list.set insert_iff empty_iff prod.inject parseProfileData_fields [OF assms(1)])

text \<open>
  Claim C2, as amended. For every canonical field with a snake\_case and a
  camelCase source key, each parser takes the value under the snake\_case key
  when that value is truthy; otherwise the value under the camelCase key when
  that one is truthy; otherwise the default of the field. Each field is decided
  from its own two keys only.
\<close>

theorem fallback_by_truthiness:
  "(\<forall>(s, c, d, field) \<in> set user_dual_fields. \<forall>r.
       parseUserData clk userData = Some r \<longrightarrow>
       field r =
         (if truthy (js_get (js_get userData ''data'') s) then js_get (js_get userData ''data'') s
          else if truthy (js_get (js_get userData ''data'') c)
               then js_get (js_get userData ''data'') c
          else d))
   \<and> (\<forall>(s, c, d, field) \<in> set avatar_dual_fields. \<forall>r.
       parseAvatarData avatarData = Some r \<longrightarrow>
       field r =
         (if truthy (js_get (js_get avatarData ''data'') s)
          then js_get (js_get avatarData ''data'') s
          else if truthy (js_get (js_get avatarData ''data'') c)
               then js_get (js_get avatarData ''data'') c
          else d))
   \<and> (\<forall>(s, c, d, field) \<in> set profile_dual_fields. \<forall>r.
       parseProfileData profileData = Some r \<longrightarrow>
       field r =
         (if truthy (js_get (js_get profileData ''data'') s)
          then js_get (js_get profileData ''data'') s
          else if truthy (js_get (js_get profileData ''data'') c)
               then js_get (js_get profileData ''data'') c
          else d))"
proof -
  have u: "field r =
         (if truthy (js_get (js_get userData ''data'') s) then js_get (js_get userData ''data'') s
          else if truthy (js_get (js_get userData ''data'') c)
               then js_get (js_get userData ''data'') c
          else d)"
    if "(s, c, d, field) \<in> set user_dual_fields" "parseUserData clk userData = Some r"
    for s c d field r
    using parseUserData_dual [OF that(2) that(1)] by (simp only: js_or_chain)
  have a: "field r =
         (if truthy (js_get (js_get avatarData ''data'') s)
          then js_get (js_get avatarData ''data'') s
          else if truthy (js_get (js_get avatarData ''data'') c)
               then js_get (js_get avatarData ''data'') c
          else d)"
    if "(s, c, d, field) \<in> set avatar_dual_fields" "parseAvatarData avatarData = Some r"
    for s c d field r
    using parseAvatarData_dual [OF that(2) that(1)] by (simp only: js_or_chain)
  have p: "field r =
         (if truthy (js_get (js_get profileData ''data'') s)
          then js_get (js_get profileData ''data'') s
          else if truthy (js_get (js_get profileData ''data'') c)
               then js_get (js_get profileData ''data'') c
          else d)"
    if "(s, c, d, field) \<in> set profile_dual_fields" "parseProfileData profileData = Some r"
    for s c d field r
    using parseProfileData_dual [OF that(2) that(1)] by (simp only: js_or_chain)
  show ?thesis
    by (intro conjI ballI; clarify) (rule u a p; assumption)+
qed

text \<open>
  The claim as it was stated asks for the snake\_case value whenever the key is
  present. Here \<^verbatim>\<open>is_vip\<close> is present and false, \<^verbatim>\<open>isVip\<close> is true, and the
  normalized flag is true.
\<close>

theorem snake_falsy_counterexample:
  "js_get (js_get mixed_user_entry ''data'') ''is_vip'' = JBool False
   \<and> map_option isVip (parseUserData fixed_clock mixed_user_entry) = Some (JBool True)"
  by (simp add: mixed_user_entry_def parseUserData_def js_or_def Let_def)

theorem fallback_by_truthiness_witness:
  "map_option isVip (parseUserData fixed_clock mixed_user_entry) = Some (JBool True)
   \<and> map_option isStaff (parseUserData fixed_clock mixed_user_entry) = Some (JBool True)
   \<and> map_option displayName (parseUserData fixed_clock mixed_user_entry) = Some (JStr ''Abc'')
   \<and> map_option isAdult (parseUserData fixed_clock mixed_user_entry) = Some (JBool False)
   \<and> map_option lookUrl (parseAvatarData mixed_avatar_entry) = Some (JStr ''l'')
   \<and> map_option assetUrl (parseAvatarData mixed_avatar_entry) = Some (JStr ''a'')
   \<and> map_option followingCount (parseProfileData mixed_profile_entry) = Some (JNum 3)
   \<and> map_option profile_username (parseProfileData mixed_profile_entry) = Some (JStr ''abc'')
   \<and> map_option followerCount (parseProfileData mixed_profile_entry) = Some (JNum 0)"
proof -
  obtain u where u: "parseUserData fixed_clock mixed_user_entry = Some u"
    by (simp add: parseUserData_def mixed_user_entry_def Let_def)
  obtain a where a: "parseAvatarData mixed_avatar_entry = Some a"
    by (simp add: parseAvatarData_def mixed_avatar_entry_def Let_def)
  obtain p where p: "parseProfileData mixed_profile_entry = Some p"
    by (simp add: parseProfileData_def mixed_profile_entry_def Let_def)
  have du: "js_get mixed_user_entry ''data'' =
      JObj [(''id'', JStr ''7''), (''is_vip'', JBool False), (''isVip'', JBool True),
            (''display_name'', JStr ''Abc''), (''isStaff'', JBool True)]"
    by (simp add: mixed_user_entry_def)
  have da: "js_get mixed_avatar_entry ''data'' =
      JObj [(''look_url'', JStr []), (''lookUrl'', JStr ''l''), (''asset_url'', JStr ''a'')]"
    by (simp add: mixed_avatar_entry_def)
  have dp: "js_get mixed_profile_entry ''data'' =
      JObj [(''approx_following_count'', JNum 0), (''followingCount'', JNum 3),
            (''avatarName'', JStr ''abc'')]"
    by (simp add: mixed_profile_entry_def)
  from fallback_by_truthiness [of fixed_clock mixed_user_entry mixed_avatar_entry
      mixed_profile_entry]
  show ?thesis
    unfolding u a p du da dp
    by (simp add: user_dual_fields_def avatar_dual_fields_def profile_dual_fields_def)
qed

section \<open>The two naming conventions are interchangeable\<close>

lemma dual_chain_commutes:
  assumes s1: "js_get x1 s = v" and c1: "js_get x1 c = JUndefined"
    and s2: "js_get x2 s = JUndefined" and c2: "js_get x2 c = v"
    and rest: "\<And>k. k \<noteq> s \<Longrightarrow> k \<noteq> c \<Longrightarrow> js_get x1 k = js_get x2 k"
    and apart: "(s' = s \<and> c' = c) \<or> (s' \<noteq> s \<and> s' \<noteq> c \<and> c' \<noteq> s \<and> c' \<noteq> c)"
  shows "js_or (js_get x1 s') (js_or (js_get x1 c') d) =
         js_or (js_get x2 s') (js_or (js_get x2 c') d)"
  using apart
proof
  assume "s' = s \<and> c' = c"
  then show ?thesis by (simp only: s1 c1 s2 c2 js_or_swap)
next
  assume "s' \<noteq> s \<and> s' \<noteq> c \<and> c' \<noteq> s \<and> c' \<noteq> c"
  then have n: "s' \<noteq> s" "s' \<noteq> c" "c' \<noteq> s" "c' \<noteq> c"
    by simp_all
  have "js_get x1 s' = js_get x2 s'"
    using n(1,2) by (rule rest)
  moreover have "js_get x1 c' = js_get x2 c'"
    using n(3,4) by (rule rest)
  ultimately show ?thesis by (simp only:)
qed

lemma parseUserData_cong:
  assumes "truthy e1 = truthy e2" and "object_keys e1 = object_keys e2"
    and "js_get e1 ''data'' = d1" and "js_get e2 ''data'' = d2"
    and "truthy d1 = truthy d2"
    and "js_get d1 ''id'' = js_get d2 ''id''"
    and "js_get d1 ''_id'' = js_get d2 ''_id''"
    and "js_get d1 ''username'' = js_get d2 ''username''"
    and "js_get d1 ''avatarname'' = js_get d2 ''avatarname''"
    and "js_get d1 ''gender'' = js_get d2 ''gender''"
    and "js_get d1 ''age'' = js_get d2 ''age''"
    and "js_get d1 ''country'' = js_get d2 ''country''"
    and "js_get d1 ''state'' = js_get d2 ''state''"
    and "js_get d1 ''created'' = js_get d2 ''created''"
    and "js_get d1 ''created_datetime'' = js_get d2 ''created_datetime''"
    and "js_get d1 ''registered'' = js_get d2 ''registered''"
    and "js_get d1 ''registered_datetime'' = js_get d2 ''registered_datetime''"
    and "\<And>s c d field. (s, c, d, field) \<in> set user_dual_fields \<Longrightarrow>
           js_or (js_get d1 s) (js_or (js_get d1 c) d) =
           js_or (js_get d2 s) (js_or (js_get d2 c) d)"
  shows "parseUserData clk e1 = parseUserData clk e2"
proof -
  have dual:
    "js_or (js_get d1 ''display_name'') (js_or (js_get d1 ''displayName'') (JStr [])) =
       js_or (js_get d2 ''display_name'') (js_or (js_get d2 ''displayName'') (JStr []))"
    "js_or (js_get d1 ''avatar_image'') (js_or (js_get d1 ''avatarImage'') (JStr [])) =
       js_or (js_get d2 ''avatar_image'') (js_or (js_get d2 ''avatarImage'') (JStr []))"
    "js_or (js_get d1 ''avatar_portrait_image'') (js_or (js_get d1 ''avatarPortraitImage'') (JStr [])) =
       js_or (js_get d2 ''avatar_portrait_image'') (js_or (js_get d2 ''avatarPortraitImage'') (JStr []))"
    "js_or (js_get d1 ''is_vip'') (js_or (js_get d1 ''isVip'') (JBool False)) =
       js_or (js_get d2 ''is_vip'') (js_or (js_get d2 ''isVip'') (JBool False))"
    "js_or (js_get d1 ''is_creator'') (js_or (js_get d1 ''isCreator'') (JBool False)) =
       js_or (js_get d2 ''is_creator'') (js_or (js_get d2 ''isCreator'') (JBool False))"
    "js_or (js_get d1 ''is_ap'') (js_or (js_get d1 ''isAp'') (JBool False)) =
       js_or (js_get d2 ''is_ap'') (js_or (js_get d2 ''isAp'') (JBool False))"
    "js_or (js_get d1 ''is_staff'') (js_or (js_get d1 ''isStaff'') (JBool False)) =
       js_or (js_get d2 ''is_staff'') (js_or (js_get d2 ''isStaff'') (JBool False))"
    "js_or (js_get d1 ''is_adult'') (js_or (js_get d1 ''isAdult'') (JBool False)) =
       js_or (js_get d2 ''is_adult'') (js_or (js_get d2 ''isAdult'') (JBool False))"
    "js_or (js_get d1 ''is_ageverified'') (js_or (js_get d1 ''isAgeVerified'') (JBool False)) =
       js_or (js_get d2 ''is_ageverified'') (js_or (js_get d2 ''isAgeVerified'') (JBool False))"
    by (rule assms(18), simp add: user_dual_fields_def)+
  show ?thesis
    unfolding parseUserData_def Let_def
    by (simp only: assms(1-17) dual)
qed

lemma user_dual_fields_apart:
  "\<forall>(s, c, d, field) \<in> set user_dual_fields.
      (\<forall>k \<in> set [''id'', ''_id'', ''username'', ''avatarname'', ''gender'', ''age'',
                  ''country'', ''state'', ''created'', ''created_datetime'', ''registered'',
                  ''registered_datetime''].
          k \<noteq> s \<and> k \<noteq> c)
      \<and> (\<forall>(s', c', d', field') \<in> set user_dual_fields.
            (s' = s \<and> c' = c) \<or> (s' \<noteq> s \<and> s' \<noteq> c \<and> c' \<noteq> s \<and> c' \<noteq> c))"
  by (simp add: user_dual_fields_def)

lemma user_convention_commutes:
  assumes sc: "(s, c) \<in> dual_keys user_dual_fields"
    and d1: "js_get e1 ''data'' = JObj kvs1" and d2: "js_get e2 ''data'' = JObj kvs2"
    and keys: "object_keys e1 = object_keys e2"
    and s1: "js_get (JObj kvs1) s = v" and c1: "js_get (JObj kvs1) c = JUndefined"
    and s2: "js_get (JObj kvs2) s = JUndefined" and c2: "js_get (JObj kvs2) c = v"
    and rest: "\<And>k. k \<noteq> s \<Longrightarrow> k \<noteq> c \<Longrightarrow> js_get (JObj kvs1) k = js_get (JObj kvs2) k"
  shows "parseUserData clk e1 = parseUserData clk e2"
proof -
  from sc obtain d field where m: "(s, c, d, field) \<in> set user_dual_fields"
    by (auto simp: dual_keys_def)
  from user_dual_fields_apart m
  have "case (s, c, d, field) of (s, c, d, field) \<Rightarrow>
      (\<forall>k \<in> set [''id'', ''_id'', ''username'', ''avatarname'', ''gender'', ''age'',
                  ''country'', ''state'', ''created'', ''created_datetime'', ''registered'',
                  ''registered_datetime''].
          k \<noteq> s \<and> k \<noteq> c)
      \<and> (\<forall>(s', c', d', field') \<in> set user_dual_fields.
            (s' = s \<and> c' = c) \<or> (s' \<noteq> s \<and> s' \<noteq> c \<and> c' \<noteq> s \<and> c' \<noteq> c))"
    by (rule bspec)
  then have ap: "(\<forall>k \<in> set [''id'', ''_id'', ''username'', ''avatarname'', ''gender'', ''age'',
                  ''country'', ''state'', ''created'', ''created_datetime'', ''registered'',
                  ''registered_datetime''].
          k \<noteq> s \<and> k \<noteq> c)
      \<and> (\<forall>(s', c', d', field') \<in> set user_dual_fields.
            (s' = s \<and> c' = c) \<or> (s' \<noteq> s \<and> s' \<noteq> c \<and> c' \<noteq> s \<and> c' \<noteq> c))"
    by (simp only: prod.case)
  note ap1 = ap [THEN conjunct1] and ap2 = ap [THEN conjunct2]
  have plain: "js_get (JObj kvs1) k = js_get (JObj kvs2) k"
    if "k \<in> set [''id'', ''_id'', ''username'', ''avatarname'', ''gender'', ''age'',
                  ''country'', ''state'', ''created'', ''created_datetime'', ''registered'',
                  ''registered_datetime'']" for k
  proof -
    from ap1 that have "k \<noteq> s \<and> k \<noteq> c" by (rule bspec)
    then have "k \<noteq> s" "k \<noteq> c" by simp_all
    then show ?thesis by (rule rest)
  qed
  have apart: "(s' = s \<and> c' = c) \<or> (s' \<noteq> s \<and> s' \<noteq> c \<and> c' \<noteq> s \<and> c' \<noteq> c)"
    if "(s', c', d', field') \<in> set user_dual_fields" for s' c' d' field'
  proof -
    from ap2 that
    have "case (s', c', d', field') of (s', c', d', field') \<Rightarrow>
            (s' = s \<and> c' = c) \<or> (s' \<noteq> s \<and> s' \<noteq> c \<and> c' \<noteq> s \<and> c' \<noteq> c)"
      by (rule bspec)
    then show ?thesis by (simp only: prod.case)
  qed
  have t1: "truthy e1" by (rule data_receiver_truthy) (simp add: d1)
  have t2: "truthy e2" by (rule data_receiver_truthy) (simp add: d2)
  show ?thesis
  proof (rule parseUserData_cong [OF _ keys d1 d2])
    show "truthy e1 = truthy e2" using t1 t2 by simp
    show "truthy (JObj kvs1) = truthy (JObj kvs2)" by simp
    show "js_or (js_get (JObj kvs1) s') (js_or (js_get (JObj kvs1) c') d') =
          js_or (js_get (JObj kvs2) s') (js_or (js_get (JObj kvs2) c') d')"
      if "(s', c', d', field') \<in> set user_dual_fields" for s' c' d' field'
      by (rule dual_chain_commutes [OF s1 c1 s2 c2 rest apart [OF that]])
  qed (rule plain, simp)+
qed

lemma parseAvatarData_cong:
  assumes "truthy e1 = truthy e2"
    and "js_get e1 ''data'' = d1" and "js_get e2 ''data'' = d2"
    and "truthy d1 = truthy d2"
    and "js_get d1 ''gender'' = js_get d2 ''gender''"
    and "js_get d1 ''products'' = js_get d2 ''products''"
    and "\<And>s c d field. (s, c, d, field) \<in> set avatar_dual_fields \<Longrightarrow>
           js_or (js_get d1 s) (js_or (js_get d1 c) d) =
           js_or (js_get d2 s) (js_or (js_get d2 c) d)"
  shows "parseAvatarData e1 = parseAvatarData e2"
proof -
  have dual:
    "js_or (js_get d1 ''look_url'') (js_or (js_get d1 ''lookUrl'') (JStr [])) =
       js_or (js_get d2 ''look_url'') (js_or (js_get d2 ''lookUrl'') (JStr []))"
    "js_or (js_get d1 ''asset_url'') (js_or (js_get d1 ''assetUrl'') (JStr [])) =
       js_or (js_get d2 ''asset_url'') (js_or (js_get d2 ''assetUrl'') (JStr []))"
    by (rule assms(7), simp add: avatar_dual_fields_def)+
  show ?thesis
    unfolding parseAvatarData_def Let_def
    by (simp only: assms(1-6) dual)
qed

lemma avatar_dual_fields_apart:
  "\<forall>(s, c, d, field) \<in> set avatar_dual_fields.
      (\<forall>k \<in> set [''gender'', ''products''].
          k \<noteq> s \<and> k \<noteq> c)
      \<and> (\<forall>(s', c', d', field') \<in> set avatar_dual_fields.
            (s' = s \<and> c' = c) \<or> (s' \<noteq> s \<and> s' \<noteq> c \<and> c' \<noteq> s \<and> c' \<noteq> c))"
  by (simp add: avatar_dual_fields_def)

lemma avatar_convention_commutes:
  assumes sc: "(s, c) \<in> dual_keys avatar_dual_fields"
    and d1: "js_get e1 ''data'' = JObj kvs1" and d2: "js_get e2 ''data'' = JObj kvs2"
    and s1: "js_get (JObj kvs1) s = v" and c1: "js_get (JObj kvs1) c = JUndefined"
    and s2: "js_get (JObj kvs2) s = JUndefined" and c2: "js_get (JObj kvs2) c = v"
    and rest: "\<And>k. k \<noteq> s \<Longrightarrow> k \<noteq> c \<Longrightarrow> js_get (JObj kvs1) k = js_get (JObj kvs2) k"
  shows "parseAvatarData e1 = parseAvatarData e2"
proof -
  from sc obtain d field where m: "(s, c, d, field) \<in> set avatar_dual_fields"
    by (auto simp: dual_keys_def)
  from avatar_dual_fields_apart m
  have "case (s, c, d, field) of (s, c, d, field) \<Rightarrow>
      (\<forall>k \<in> set [''gender'', ''products''].
          k \<noteq> s \<and> k \<noteq> c)
      \<and> (\<forall>(s', c', d', field') \<in> set avatar_dual_fields.
            (s' = s \<and> c' = c) \<or> (s' \<noteq> s \<and> s' \<noteq> c \<and> c' \<noteq> s \<and> c' \<noteq> c))"
    by (rule bspec)
  then have ap: "(\<forall>k \<in> set [''gender'', ''products''].
          k \<noteq> s \<and> k \<noteq> c)
      \<and> (\<forall>(s', c', d', field') \<in> set avatar_dual_fields.
            (s' = s \<and> c' = c) \<or> (s' \<noteq> s \<and> s' \<noteq> c \<and> c' \<noteq> s \<and> c' \<noteq> c))"
    by (simp only: prod.case)
  note ap1 = ap [THEN conjunct1] and ap2 = ap [THEN conjunct2]
  have plain: "js_get (JObj kvs1) k = js_get (JObj kvs2) k"
    if "k \<in> set [''gender'', ''products'']" for k
  proof -
    from ap1 that have "k \<noteq> s \<and> k \<noteq> c" by (rule bspec)
    then have "k \<noteq> s" "k \<noteq> c" by simp_all
    then show ?thesis by (rule rest)
  qed
  have apart: "(s' = s \<and> c' = c) \<or> (s' \<noteq> s \<and> s' \<noteq> c \<and> c' \<noteq> s \<and> c' \<noteq> c)"
    if "(s', c', d', field') \<in> set avatar_dual_fields" for s' c' d' field'
  proof -
    from ap2 that
    have "case (s', c', d', field') of (s', c', d', field') \<Rightarrow>
            (s' = s \<and> c' = c) \<or> (s' \<noteq> s \<and> s' \<noteq> c \<and> c' \<noteq> s \<and> c' \<noteq> c)"
      by (rule bspec)
    then show ?thesis by (simp only: prod.case)
  qed
  have t1: "truthy e1" by (rule data_receiver_truthy) (simp add: d1)
  have t2: "truthy e2" by (rule data_receiver_truthy) (simp add: d2)
  show ?thesis
  proof (rule parseAvatarData_cong [OF _ d1 d2])
    show "truthy e1 = truthy e2" using t1 t2 by simp
    show "truthy (JObj kvs1) = truthy (JObj kvs2)" by simp
    show "js_or (js_get (JObj kvs1) s') (js_or (js_get (JObj kvs1) c') d') =
          js_or (js_get (JObj kvs2) s') (js_or (js_get (JObj kvs2) c') d')"
      if "(s', c', d', field') \<in> set avatar_dual_fields" for s' c' d' field'
      by (rule dual_chain_commutes [OF s1 c1 s2 c2 rest apart [OF that]])
  qed (rule plain, simp)+
qed

lemma parseProfileData_cong:
  assumes "truthy e1 = truthy e2"
    and "js_get e1 ''data'' = d1" and "js_get e2 ''data'' = d2"
    and "truthy d1 = truthy d2"
    and "js_get d1 ''image'' = js_get d2 ''image''"
    and "js_get d1 ''online'' = js_get d2 ''online''"
    and "js_get d1 ''title'' = js_get d2 ''title''"
    and "\<And>s c d field. (s, c, d, field) \<in> set profile_dual_fields \<Longrightarrow>
           js_or (js_get d1 s) (js_or (js_get d1 c) d) =
           js_or (js_get d2 s) (js_or (js_get d2 c) d)"
  shows "parseProfileData e1 = parseProfileData e2"
proof -
  have dual:
    "js_or (js_get d1 ''avatar_name'') (js_or (js_get d1 ''avatarName'') (JStr [])) =
       js_or (js_get d2 ''avatar_name'') (js_or (js_get d2 ''avatarName'') (JStr []))"
    "js_or (js_get d1 ''approx_following_count'') (js_or (js_get d1 ''followingCount'') (JNum 0)) =
       js_or (js_get d2 ''approx_following_count'') (js_or (js_get d2 ''followingCount'') (JNum 0))"
    "js_or (js_get d1 ''approx_follower_count'') (js_or (js_get d1 ''followerCount'') (JNum 0)) =
       js_or (js_get d2 ''approx_follower_count'') (js_or (js_get d2 ''followerCount'') (JNum 0))"
    by (rule assms(8), simp add: profile_dual_fields_def)+
  show ?thesis
    unfolding parseProfileData_def Let_def
    by (simp only: assms(1-7) dual)
qed

lemma profile_dual_fields_apart:
  "\<forall>(s, c, d, field) \<in> set profile_dual_fields.
      (\<forall>k \<in> set [''image'', ''online'', ''title''].
          k \<noteq> s \<and> k \<noteq> c)
      \<and> (\<forall>(s', c', d', field') \<in> set profile_dual_fields.
            (s' = s \<and> c' = c) \<or> (s' \<noteq> s \<and> s' \<noteq> c \<and> c' \<noteq> s \<and> c' \<noteq> c))"
  by (simp add: profile_dual_fields_def)

lemma profile_convention_commutes:
  assumes sc: "(s, c) \<in> dual_keys profile_dual_fields"
    and d1: "js_get e1 ''data'' = JObj kvs1" and d2: "js_get e2 ''data'' = JObj kvs2"
    and s1: "js_get (JObj kvs1) s = v" and c1: "js_get (JObj kvs1) c = JUndefined"
    and s2: "js_get (JObj kvs2) s = JUndefined" and c2: "js_get (JObj kvs2) c = v"
    and rest: "\<And>k. k \<noteq> s \<Longrightarrow> k \<noteq> c \<Longrightarrow> js_get (JObj kvs1) k = js_get (JObj kvs2) k"
  shows "parseProfileData e1 = parseProfileData e2"
proof -
  from sc obtain d field where m: "(s, c, d, field) \<in> set profile_dual_fields"
    by (auto simp: dual_keys_def)
  from profile_dual_fields_apart m
  have "case (s, c, d, field) of (s, c, d, field) \<Rightarrow>
      (\<forall>k \<in> set [''image'', ''online'', ''title''].
          k \<noteq> s \<and> k \<noteq> c)
      \<and> (\<forall>(s', c', d', field') \<in> set profile_dual_fields.
            (s' = s \<and> c' = c) \<or> (s' \<noteq> s \<and> s' \<noteq> c \<and> c' \<noteq> s \<and> c' \<noteq> c))"
    by (rule bspec)
  then have ap: "(\<forall>k \<in> set [''image'', ''online'', ''title''].
          k \<noteq> s \<and> k \<noteq> c)
      \<and> (\<forall>(s', c', d', field') \<in> set profile_dual_fields.
            (s' = s \<and> c' = c) \<or> (s' \<noteq> s \<and> s' \<noteq> c \<and> c' \<noteq> s \<and> c' \<noteq> c))"
    by (simp only: prod.case)
  note ap1 = ap [THEN conjunct1] and ap2 = ap [THEN conjunct2]
  have plain: "js_get (JObj kvs1) k = js_get (JObj kvs2) k"
    if "k \<in> set [''image'', ''online'', ''title'']" for k
  proof -
    from ap1 that have "k \<noteq> s \<and> k \<noteq> c" by (rule bspec)
    then have "k \<noteq> s" "k \<noteq> c" by simp_all
    then show ?thesis by (rule rest)
  qed
  have apart: "(s' = s \<and> c' = c) \<or> (s' \<noteq> s \<and> s' \<noteq> c \<and> c' \<noteq> s \<and> c' \<noteq> c)"
    if "(s', c', d', field') \<in> set profile_dual_fields" for s' c' d' field'
  proof -
    from ap2 that
    have "case (s', c', d', field') of (s', c', d', field') \<Rightarrow>
            (s' = s \<and> c' = c) \<or> (s' \<noteq> s \<and> s' \<noteq> c \<and> c' \<noteq> s \<and> c' \<noteq> c)"
      by (rule bspec)
    then show ?thesis by (simp only: prod.case)
  qed
  have t1: "truthy e1" by (rule data_receiver_truthy) (simp add: d1)
  have t2: "truthy e2" by (rule data_receiver_truthy) (simp add: d2)
  show ?thesis
  proof (rule parseProfileData_cong [OF _ d1 d2])
    show "truthy e1 = truthy e2" using t1 t2 by simp
    show "truthy (JObj kvs1) = truthy (JObj kvs2)" by simp
    show "js_or (js_get (JObj kvs1) s') (js_or (js_get (JObj kvs1) c') d') =
          js_or (js_get (JObj kvs2) s') (js_or (js_get (JObj kvs2) c') d')"
      if "(s', c', d', field') \<in> set profile_dual_fields" for s' c' d' field'
      by (rule dual_chain_commutes [OF s1 c1 s2 c2 rest apart [OF that]])
  qed (rule plain, simp)+
qed

lemma present_absent:
  assumes "map_of kvs1 s = Some v" and "map_of kvs1 c = None"
    and "map_of kvs2 s = None" and "map_of kvs2 c = Some v"
    and "\<forall>k. k \<noteq> s \<and> k \<noteq> c \<longrightarrow> map_of kvs1 k = map_of kvs2 k"
  shows "js_get (JObj kvs1) s = v" and "js_get (JObj kvs1) c = JUndefined"
    and "js_get (JObj kvs2) s = JUndefined" and "js_get (JObj kvs2) c = v"
    and "\<And>k. k \<noteq> s \<Longrightarrow> k \<noteq> c \<Longrightarrow> js_get (JObj kvs1) k = js_get (JObj kvs2) k"
  using assms by simp_all

text \<open>
  Claim C8. Take two entries that differ only in the convention of one
  dual-convention field: the data of the first carries \<open>v\<close> under the
  snake\_case key and has no camelCase key, the data of the second carries \<open>v\<close>
  under the camelCase key and has no snake\_case key, and they agree on every
  other key. Then the parser of the record that has this field returns the same
  result on both, for every value \<open>v\<close>.
\<close>

theorem naming_convention_commutes:
  assumes "js_get e1 ''data'' = JObj kvs1" and "js_get e2 ''data'' = JObj kvs2"
    and "object_keys e1 = object_keys e2"
    and "map_of kvs1 s = Some v" and "map_of kvs1 c = None"
    and "map_of kvs2 s = None" and "map_of kvs2 c = Some v"
    and "\<forall>k. k \<noteq> s \<and> k \<noteq> c \<longrightarrow> map_of kvs1 k = map_of kvs2 k"
  shows "((s, c) \<in> dual_keys user_dual_fields \<longrightarrow>
            parseUserData clk e1 = parseUserData clk e2)
       \<and> ((s, c) \<in> dual_keys avatar_dual_fields \<longrightarrow>
            parseAvatarData e1 = parseAvatarData e2)
       \<and> ((s, c) \<in> dual_keys profile_dual_fields \<longrightarrow>
            parseProfileData e1 = parseProfileData e2)"
proof -
  note g = present_absent [OF assms(4-8)]
  have "parseUserData clk e1 = parseUserData clk e2"
    if "(s, c) \<in> dual_keys user_dual_fields"
    using that assms(1,2,3) g by (rule user_convention_commutes)
  moreover have "parseAvatarData e1 = parseAvatarData e2"
    if "(s, c) \<in> dual_keys avatar_dual_fields"
    using that assms(1,2) g by (rule avatar_convention_commutes)
  moreover have "parseProfileData e1 = parseProfileData e2"
    if "(s, c) \<in> dual_keys profile_dual_fields"
    using that assms(1,2) g by (rule profile_convention_commutes)
  ultimately show ?thesis by simp
qed

theorem naming_convention_commutes_witness:
  "parseUserData fixed_clock snake_user_entry = parseUserData fixed_clock camel_user_entry
   \<and> parseAvatarData snake_avatar_entry = parseAvatarData camel_avatar_entry
   \<and> parseProfileData snake_profile_entry = parseProfileData camel_profile_entry
   \<and> map_option displayName (parseUserData fixed_clock camel_user_entry) = Some (JStr ''Abc'')
   \<and> map_option lookUrl (parseAvatarData camel_avatar_entry) = Some (JStr ''l'')
   \<and> map_option followerCount (parseProfileData camel_profile_entry) = Some (JNum 0)"
proof -
  have u: "parseUserData fixed_clock snake_user_entry = parseUserData fixed_clock camel_user_entry"
    using naming_convention_commutes [of snake_user_entry
        "[(''id'', JStr ''7''), (''display_name'', JStr ''Abc'')]" camel_user_entry
        "[(''id'', JStr ''7''), (''displayName'', JStr ''Abc'')]"
        "''display_name''" "JStr ''Abc''" "''displayName''" fixed_clock]
    by (simp add: snake_user_entry_def camel_user_entry_def dual_keys_def user_dual_fields_def)
  have a: "parseAvatarData snake_avatar_entry = parseAvatarData camel_avatar_entry"
    using naming_convention_commutes [of snake_avatar_entry
        "[(''look_url'', JStr ''l''), (''gender'', JStr ''f'')]" camel_avatar_entry
        "[(''lookUrl'', JStr ''l''), (''gender'', JStr ''f'')]"
        "''look_url''" "JStr ''l''" "''lookUrl''" fixed_clock]
    by (simp add: snake_avatar_entry_def camel_avatar_entry_def dual_keys_def
        avatar_dual_fields_def)
  have p: "parseProfileData snake_profile_entry = parseProfileData camel_profile_entry"
    using naming_convention_commutes [of snake_profile_entry
        "[(''approx_follower_count'', JNum 0), (''title'', JStr ''T'')]" camel_profile_entry
        "[(''followerCount'', JNum 0), (''title'', JStr ''T'')]"
        "''approx_follower_count''" "JNum 0" "''followerCount''" fixed_clock]
    by (simp add: snake_profile_entry_def camel_profile_entry_def dual_keys_def
        profile_dual_fields_def)
  have "map_option displayName (parseUserData fixed_clock camel_user_entry) = Some (JStr ''Abc'')"
    by (simp add: camel_user_entry_def parseUserData_def js_or_def Let_def)
  moreover have "map_option lookUrl (parseAvatarData camel_avatar_entry) = Some (JStr ''l'')"
    by (simp add: camel_avatar_entry_def parseAvatarData_def js_or_def Let_def)
  moreover have
    "map_option followerCount (parseProfileData camel_profile_entry) = Some (JNum 0)"
    by (simp add: camel_profile_entry_def parseProfileData_def js_or_def Let_def)
  ultimately show ?thesis using u a p by simp
qed

section \<open>Login\<close>

lemma login_failed_shape:
  "fst (login_failed e s) = Inl e" "\<not> authenticated (snd (login_failed e s))"
  "sauce (snd (login_failed e s)) = JStr []"
  by (simp_all add: login_failed_def)

lemma login_finish_shape:
  "(case fst (login_finish s) of
      Inl e \<Rightarrow> \<not> authenticated (snd (login_finish s)) \<and> sauce (snd (login_finish s)) = JStr []
    | Inr ok \<Rightarrow> ok \<and> authenticated (snd (login_finish s))
               \<and> truthy (sauce (snd (login_finish s))))"
  by (simp add: login_finish_def login_failed_def)

text \<open>Every login that throws leaves the client unauthenticated with an empty
  token; every login that returns leaves it authenticated with a truthy one.\<close>

theorem login_outcome:
  "(case fst (login w s uname pw) of
      Inl e \<Rightarrow> \<not> authenticated (snd (login w s uname pw))
               \<and> sauce (snd (login w s uname pw)) = JStr []
    | Inr ok \<Rightarrow> ok \<and> authenticated (snd (login w s uname pw))
               \<and> truthy (sauce (snd (login w s uname pw))))"
  unfolding login_def Let_def
  by (simp add: login_failed_shape login_finish_shape
      split: http_outcome.split option.split)

text \<open>With the failure marker on the answer to the credentials, or on the
  answer to \<^verbatim>\<open>/login/me\<close>, the login throws and the session is cleared,
  whatever it held before.\<close>

theorem login_failure_marker:
  assumes "http w (Post ''/login'' (JObj [(''username'', uname), (''password'', pw)])) =
             Response loginData"
    and "js_get loginData ''status'' = JStr ''failure''
         \<or> (\<exists>meData. http w (Get ''/login/me'' []) = Response meData
                \<and> js_get meData ''status'' = JStr ''failure'')"
  shows "fst (login w s uname pw) \<noteq> Inr True
       \<and> \<not> authenticated (snd (login w s uname pw))
       \<and> sauce (snd (login w s uname pw)) = JStr []"
proof -
  have m: "js_member v ''status'' = Some (JStr ''failure'')"
    if "js_get v ''status'' = JStr ''failure''" for v
    using that by (auto simp: js_member_def)
  have "\<exists>e s'. login w s uname pw = login_failed e s'"
  proof (cases "js_to_string (num_string w) uname")
    case None
    then show ?thesis by (auto simp: login_def)
  next
    case (Some shown)
    show ?thesis
    proof (cases "js_member loginData ''status''")
      case None
      with Some assms(1) show ?thesis by (auto simp: login_def)
    next
      case st: (Some st)
      show ?thesis
      proof (cases "st = JStr ''failure''")
        case True
        with Some st assms(1) show ?thesis by (auto simp: login_def)
      next
        case False
        with st have "js_get loginData ''status'' \<noteq> JStr ''failure''"
          by (auto simp: js_member_def split: if_splits)
        with assms(2) obtain meData where me: "http w (Get ''/login/me'' []) = Response meData"
          and "js_get meData ''status'' = JStr ''failure''"
          by auto
        then have "js_member meData ''status'' = Some (JStr ''failure'')"
          by (simp add: m)
        with Some st False assms(1) me show ?thesis
          by (auto simp: login_def)
      qed
    qed
  qed
  then obtain e s' where "login w s uname pw = login_failed e s'"
    by auto
  then show ?thesis
    by (simp add: login_failed_shape)
qed

theorem login_failure_marker_witness:
  "fst (login rejecting_world stale_session (JStr ''alice'') (JStr ''wrong'')) \<noteq> Inr True
   \<and> \<not> authenticated (snd (login rejecting_world stale_session (JStr ''alice'') (JStr ''wrong'')))
   \<and> sauce (snd (login rejecting_world stale_session (JStr ''alice'') (JStr ''wrong''))) = JStr []"
  using login_failure_marker [of rejecting_world "JStr ''alice''" "JStr ''wrong''"
      "JObj [(''status'', JStr ''failure''), (''message'', JStr ''bad credentials'')]"
      stale_session]
  by (simp add: rejecting_world_def scripted_world_def)

text \<open>
  Claim C4. The claim asks for a cleared session whenever the token cannot be
  obtained. With a token left from an earlier login and an answer to
  \<^verbatim>\<open>/login/me\<close> that has no envelope, no token is read, the old one passes the
  test, and the login succeeds with the old token.
\<close>

theorem stale_token_survives_login:
  "fst (login bare_me_world stale_session (JStr ''alice'') (JStr ''secret'')) = Inr True
   \<and> authenticated (snd (login bare_me_world stale_session (JStr ''alice'') (JStr ''secret'')))
   \<and> sauce (snd (login bare_me_world stale_session (JStr ''alice'') (JStr ''secret''))) =
       JStr ''old-token''"
  by (simp add: login_def login_finish_def login_failed_def bare_me_world_def stale_session_def
      scenario_defs)

end
